theory Spec2Isabelle
  imports
    Main
    "HOL-Library.AList"
    "HOL-Library.Char_ord"
    "HOL-Library.List_Lexorder"
    "HOL-Library.Word"
begin

section \<open>Errors and results\<close>

text \<open>
  A Go function returning \<open>(T, error)\<close> is a function into \<open>error + T\<close> (\<open>Inl\<close> the error);
  one returning only \<open>error\<close> is a function into \<open>error option\<close> (\<open>None\<close> is \<open>nil\<close>).
  A run-time panic is the error value \<open>Panic\<close>, which no caller in the repository recovers
  from. \<open>Wrap p e\<close> is \<open>fmt.Errorf(p + "%w", e)\<close>; \<open>Errorf\<close> is an error made from text only.
\<close>

datatype StatusReason = ReasonNotFound | ReasonAlreadyExists | ReasonOther

datatype error =
    ErrReleaseNotFound
  | StatusError StatusReason string
  | Errorf string
  | Wrap string error
  | Panic string

fun errText :: "error \<Rightarrow> string" where
  "errText ErrReleaseNotFound = ''release: not found''"
| "errText (StatusError r m) = m"
| "errText (Errorf m) = m"
| "errText (Wrap p e) = p @ errText e"
| "errText (Panic m) = m"

text \<open>\<open>apierrors.IsNotFound\<close> and \<open>apierrors.IsAlreadyExists\<close> look through wrapping.\<close>

fun IsNotFound :: "error \<Rightarrow> bool" where
  "IsNotFound (StatusError r m) = (r = ReasonNotFound)"
| "IsNotFound (Wrap p e) = IsNotFound e"
| "IsNotFound e = False"

fun IsAlreadyExists :: "error \<Rightarrow> bool" where
  "IsAlreadyExists (StatusError r m) = (r = ReasonAlreadyExists)"
| "IsAlreadyExists (Wrap p e) = IsAlreadyExists e"
| "IsAlreadyExists e = False"

fun isPanic :: "error \<Rightarrow> bool" where
  "isPanic (Panic m) = True"
| "isPanic e = False"

section \<open>Values trees\<close>

text \<open>
  A \<open>map[string]interface{}\<close> decoded from JSON. A Go map has no order; the association
  list gives the keys in the order one \<open>range\<close> over the map happens to visit them, and each
  key occurs once (\<open>wf_values\<close>). A number is a \<open>float64\<close>, kept as the text
  \<open>encoding/json\<close> prints for it, which determines it.
\<close>

datatype json =
    JNull
  | JBool bool
  | JNum string
  | JStr string
  | JArr "json list"
  | JObj "(string \<times> json) list"

type_synonym valuesMap = "(string \<times> json) list"

fun wf_json :: "json \<Rightarrow> bool" where
  "wf_json (JArr vs) = (\<forall>v \<in> set vs. wf_json v)"
| "wf_json (JObj kvs) = (distinct (map fst kvs) \<and> (\<forall>kv \<in> set kvs. wf_json (snd kv)))"
| "wf_json v = True"

definition wf_values :: "valuesMap \<Rightarrow> bool" where
  "wf_values kvs = wf_json (JObj kvs)"

text \<open>
  \<open>mergeMaps\<close> (controller): \<open>for key, srcVal := range src\<close>; when \<open>dst\<close> has the key and
  both values are maps, the entry becomes the recursive merge, otherwise \<open>srcVal\<close>.
\<close>

function mergeMaps :: "valuesMap \<Rightarrow> valuesMap \<Rightarrow> valuesMap" where
  "mergeMaps dst [] = dst"
| "mergeMaps dst ((key, srcVal) # src) =
     (case map_of dst key of
        Some (JObj dstMap) \<Rightarrow>
          (case srcVal of
             JObj srcMap \<Rightarrow>
               mergeMaps (AList.update key (JObj (mergeMaps dstMap srcMap)) dst) src
           | _ \<Rightarrow> mergeMaps (AList.update key srcVal dst) src)
      | _ \<Rightarrow> mergeMaps (AList.update key srcVal dst) src)"
  by pat_completeness auto
termination
  by (relation "measure (\<lambda>(dst, src). size_list (size_prod (\<lambda>k. 0) size) src)") auto

text \<open>
  \<open>json.Marshal\<close> of such a tree. The standard library writes the keys of a map in sorted
  order (bytewise); how it quotes a string is the parameter \<open>q\<close>.
\<close>

fun joinStrings :: "string \<Rightarrow> string list \<Rightarrow> string" where
  "joinStrings sep [] = []"
| "joinStrings sep [x] = x"
| "joinStrings sep (x # y # ys) = x @ sep @ joinStrings sep (y # ys)"

fun marshal :: "(string \<Rightarrow> string) \<Rightarrow> json \<Rightarrow> string" where
  "marshal q JNull = ''null''"
| "marshal q (JBool b) = (if b then ''true'' else ''false'')"
| "marshal q (JNum n) = n"
| "marshal q (JStr s) = q s"
| "marshal q (JArr vs) = ''['' @ joinStrings '','' (map (marshal q) vs) @ '']''"
| "marshal q (JObj kvs) =
     ''{'' @ joinStrings '','' (map (\<lambda>(k, v). q k @ '':'' @ marshal q v) (sort_key fst kvs)) @ ''}''"

text \<open>\<open>fmt.Sprintf("%x", bytes)\<close>: two lower-case hexadecimal digits for each byte.\<close>

definition hexDigit :: "nat \<Rightarrow> char" where
  "hexDigit n = ''0123456789abcdef'' ! (n mod 16)"

definition hexByte :: "8 word \<Rightarrow> string" where
  "hexByte b = [hexDigit (unat b div 16), hexDigit (unat b mod 16)]"

definition hexBytes :: "8 word list \<Rightarrow> string" where
  "hexBytes bs = concat (map hexByte bs)"

text \<open>
  The functions of Go's standard library that the code calls and the model does not spell
  out: the JSON string quoting and decoder, and SHA-256.
\<close>

record GoLib =
  jsonQuote :: "string \<Rightarrow> string"
  jsonUnmarshal :: "string \<Rightarrow> error + json"
  sha256Sum256 :: "string \<Rightarrow> 8 word list"

text \<open>\<open>hashValues\<close> (controller): \<open>json.Marshal\<close>, \<open>sha256.Sum256\<close>, \<open>"%x"\<close> of \<open>hash[:8]\<close>.\<close>

definition hashValues :: "GoLib \<Rightarrow> valuesMap \<Rightarrow> string" where
  "hashValues L values =
     (let data = marshal (jsonQuote L) (JObj values);
          hash = sha256Sum256 L data
      in hexBytes (take 8 hash))"

text \<open>
  \<open>json.Unmarshal(data, &m)\<close> with \<open>m\<close> a \<open>map[string]interface{}\<close>: an object gives its
  map, \<open>null\<close> leaves the map nil (no entries), anything else is an error, whose message
  here leaves out the kind of JSON value that Go names in it.
\<close>

definition unmarshalMap :: "GoLib \<Rightarrow> string \<Rightarrow> error + valuesMap" where
  "unmarshalMap L data =
     (case jsonUnmarshal L data of
        Inl e \<Rightarrow> Inl e
      | Inr (JObj kvs) \<Rightarrow> Inr kvs
      | Inr JNull \<Rightarrow> Inr []
      | Inr v \<Rightarrow> Inl (Errorf ''json: cannot unmarshal into Go value of type map[string]interface {}''))"

section \<open>The file system and paths\<close>

text \<open>
  A file tree without symbolic links. A path is the list of its elements below the root;
  \<open>filepath.Join\<close> joins its arguments and cleans the result lexically (empty and \<open>.\<close>
  elements go, \<open>..\<close> removes the element before it and stays at the root).
\<close>

datatype node = File | Dir "(string \<times> node) list"

type_synonym path = "string list"

fun components_aux :: "string \<Rightarrow> string \<Rightarrow> string list" where
  "components_aux cur [] = (if cur = [] then [] else [cur])"
| "components_aux cur (c # cs) =
     (if c = CHR ''/'' then (if cur = [] then [] else [cur]) @ components_aux [] cs
      else components_aux (cur @ [c]) cs)"

definition components :: "string \<Rightarrow> string list" where
  "components s = components_aux [] s"

fun cleanElems :: "string list \<Rightarrow> string list \<Rightarrow> path" where
  "cleanElems acc [] = rev acc"
| "cleanElems acc (e # es) =
     (if e = ''.'' then cleanElems acc es
      else if e = ''..'' then cleanElems (tl acc) es
      else cleanElems (e # acc) es)"

definition filepath_Join :: "path \<Rightarrow> string list \<Rightarrow> path" where
  "filepath_Join base elems = cleanElems [] (base @ concat (map components elems))"

fun resolve :: "node \<Rightarrow> path \<Rightarrow> node option" where
  "resolve n [] = Some n"
| "resolve File (e # es) = None"
| "resolve (Dir entries) (e # es) =
     (case map_of entries e of None \<Rightarrow> None | Some n \<Rightarrow> resolve n es)"

text \<open>\<open>os.Stat(p)\<close> returns \<open>err == nil\<close> exactly when the path resolves.\<close>

definition osStat :: "node \<Rightarrow> path \<Rightarrow> bool" where
  "osStat fs p = (resolve fs p \<noteq> None)"

text \<open>
  \<open>os.ReadDir\<close>: the entries of a directory, sorted by name. Of an error only the reason
  is kept; Go puts the operation and the path in front of it.
\<close>

definition osReadDir :: "node \<Rightarrow> path \<Rightarrow> error + (string \<times> node) list" where
  "osReadDir fs p =
     (case resolve fs p of
        Some (Dir entries) \<Rightarrow> Inr (sort_key fst entries)
      | Some File \<Rightarrow> Inl (Errorf ''not a directory'')
      | None \<Rightarrow> Inl (Errorf ''no such file or directory''))"

fun IsDir :: "node \<Rightarrow> bool" where
  "IsDir (Dir entries) = True"
| "IsDir File = False"

section \<open>Chart source mirror (chartsync)\<close>

record Syncer =
  repoURL :: string
  branch :: string
  localPath :: path
  fs :: node

definition GetChartPath :: "Syncer \<Rightarrow> string \<Rightarrow> path" where
  "GetChartPath s chartName = filepath_Join (localPath s) [chartName]"

definition ChartExists :: "Syncer \<Rightarrow> string \<Rightarrow> bool" where
  "ChartExists s chartName =
     (let chartPath = GetChartPath s chartName;
          chartYaml = filepath_Join chartPath [''Chart.yaml'']
      in osStat (fs s) chartYaml)"

text \<open>
  The loop of \<open>ListCharts\<close> over the directory entries; \<open>entry.Name()[0]\<close> panics on an
  empty name.
\<close>

fun listChartsLoop :: "Syncer \<Rightarrow> (string \<times> node) list \<Rightarrow> string list \<Rightarrow> error + string list" where
  "listChartsLoop s [] charts = Inr charts"
| "listChartsLoop s ((name, n) # entries) charts =
     (if \<not> IsDir n then listChartsLoop s entries charts
      else case name of
        [] \<Rightarrow> Inl (Panic ''index out of range [0] with length 0'')
      | c # cs \<Rightarrow>
          if c = CHR ''.'' then listChartsLoop s entries charts
          else if osStat (fs s) (filepath_Join (localPath s) [name, ''Chart.yaml''])
          then listChartsLoop s entries (charts @ [name])
          else listChartsLoop s entries charts)"

definition ListCharts :: "Syncer \<Rightarrow> error + string list" where
  "ListCharts s =
     (case osReadDir (fs s) (localPath s) of
        Inl err \<Rightarrow> Inl (Wrap ''failed to read charts directory: '' err)
      | Inr entries \<Rightarrow> listChartsLoop s entries [])"

section \<open>The AppDeployment resource (api/v1alpha1)\<close>

text \<open>
  Times are seconds on a clock, \<open>0\<close> the zero time; a \<open>*metav1.Time\<close> is an option.
  Go's \<open>int\<close> (64 bits on the platforms the operator is built for) and \<open>int64\<close> fields
  hold integers in the signed 64-bit range; the one arithmetic step on them,
  \<open>FailureCount++\<close>, wraps around (\<open>wrapInt64\<close>).
\<close>

definition wrapInt64 :: "int \<Rightarrow> int" where
  "wrapInt64 x = (x + 2 ^ 63) mod 2 ^ 64 - 2 ^ 63"

definition timeIsZero :: "nat option \<Rightarrow> bool" where
  "timeIsZero t = (case t of None \<Rightarrow> True | Some x \<Rightarrow> x = 0)"

definition PhasePending :: string where "PhasePending = ''Pending''"
definition PhaseInstalling :: string where "PhaseInstalling = ''Installing''"
definition PhaseUpgrading :: string where "PhaseUpgrading = ''Upgrading''"
definition PhaseDeployed :: string where "PhaseDeployed = ''Deployed''"
definition PhaseFailed :: string where "PhaseFailed = ''Failed''"
definition PhaseUninstalling :: string where "PhaseUninstalling = ''Uninstalling''"

record ValuesReference =
  Kind :: string
  vr_Name :: string
  ValuesKey :: string
  Optional :: bool

record AppDeploymentSpec =
  AppName :: string
  ChartVersion :: string
  TeamID :: string
  RequestedBy :: string
  ReleaseName :: string
  Values :: "string option"
  ValuesFrom :: "ValuesReference list"
  AutoUpgrade :: bool
  Suspend :: bool

datatype ConditionStatus = ConditionTrue | ConditionFalse | ConditionUnknown

record Condition =
  c_Type :: string
  c_Status :: ConditionStatus
  c_ObservedGeneration :: int
  c_LastTransitionTime :: nat
  c_Reason :: string
  c_Message :: string

record AppDeploymentStatus =
  Phase :: string
  HelmReleaseName :: string
  HelmReleaseRevision :: int
  DeployedChartVersion :: string
  LastAttemptedChartVersion :: string
  LastAppliedValuesHash :: string
  Conditions :: "Condition list"
  LastReconcileTime :: "nat option"
  ObservedGeneration :: int
  FailureCount :: int
  Message :: string

record ObjectMeta =
  Name :: string
  Namespace :: string
  Generation :: int
  DeletionTimestamp :: "nat option"
  Finalizers :: "string list"
  Labels :: "(string \<times> string) list"
  Annotations :: "(string \<times> string) list"

record AppDeployment =
  ObjectMeta :: ObjectMeta
  Spec :: AppDeploymentSpec
  Status :: AppDeploymentStatus

text \<open>
  \<open>meta.SetStatusCondition\<close> of apimachinery: a condition of a new type is appended; one of
  a known type is updated in place, its transition time only when the status changes.
\<close>

fun SetStatusCondition :: "nat \<Rightarrow> Condition list \<Rightarrow> Condition \<Rightarrow> Condition list" where
  "SetStatusCondition now [] new =
     [new\<lparr>c_LastTransitionTime :=
        (if c_LastTransitionTime new = 0 then now else c_LastTransitionTime new)\<rparr>]"
| "SetStatusCondition now (c # cs) new =
     (if c_Type c = c_Type new then
        (let c1 = (if c_Status c \<noteq> c_Status new
                   then c\<lparr>c_Status := c_Status new,
                          c_LastTransitionTime :=
                            (if c_LastTransitionTime new \<noteq> 0 then c_LastTransitionTime new else now)\<rparr>
                   else c)
         in c1\<lparr>c_Reason := c_Reason new, c_Message := c_Message new,
                c_ObservedGeneration := c_ObservedGeneration new\<rparr> # cs)
      else c # SetStatusCondition now cs new)"

text \<open>The finalizer helpers of \<open>controllerutil\<close>.\<close>

definition ContainsFinalizer :: "AppDeployment \<Rightarrow> string \<Rightarrow> bool" where
  "ContainsFinalizer ob f = (f \<in> set (Finalizers (ObjectMeta ob)))"

definition AddFinalizer :: "AppDeployment \<Rightarrow> string \<Rightarrow> AppDeployment" where
  "AddFinalizer ob f =
     (if f \<in> set (Finalizers (ObjectMeta ob)) then ob
      else ob\<lparr>ObjectMeta := (ObjectMeta ob)\<lparr>Finalizers := Finalizers (ObjectMeta ob) @ [f]\<rparr>\<rparr>)"

definition RemoveFinalizer :: "AppDeployment \<Rightarrow> string \<Rightarrow> AppDeployment" where
  "RemoveFinalizer ob f =
     ob\<lparr>ObjectMeta := (ObjectMeta ob)\<lparr>Finalizers := filter (\<lambda>x. x \<noteq> f) (Finalizers (ObjectMeta ob))\<rparr>\<rparr>"

section \<open>Release lifecycle manager (helm)\<close>

text \<open>
  What the Helm SDK hands back: a release always carries its \<open>Info\<close>; the chart with its
  metadata may be missing.
\<close>

record ChartMetadata =
  md_Name :: string
  md_Version :: string
  md_AppVersion :: string

record Release =
  rel_Name :: string
  rel_Namespace :: string
  rel_Version :: int
  rel_Status :: string
  rel_LastDeployed :: nat
  rel_Chart :: "ChartMetadata option"

record ReleaseInfo =
  ri_Name :: string
  ri_Namespace :: string
  ri_Revision :: int
  ri_Status :: string
  ri_ChartName :: string
  ri_ChartVersion :: string
  ri_AppVersion :: string
  ri_Updated :: nat

text \<open>
  The client with its two settings, the file system it looks at, and the Helm SDK calls it
  makes, each given by its outcome: initialising an action configuration for a namespace,
  and running the get, install, upgrade, uninstall and pull actions and the chart loader.
  The process-wide mutex orders concurrent callers and has no part in one sequential call.
\<close>

record HelmClient =
  chartsPath :: path
  hc_repoURL :: string
  hc_fs :: node
  actionConfigInit :: "string \<Rightarrow> error option"
  getRun :: "string \<Rightarrow> string \<Rightarrow> error + Release"
  installRun :: "string \<Rightarrow> string \<Rightarrow> string \<Rightarrow> ChartMetadata \<Rightarrow> valuesMap \<Rightarrow> error + Release"
  upgradeRun :: "string \<Rightarrow> string \<Rightarrow> string \<Rightarrow> ChartMetadata \<Rightarrow> valuesMap \<Rightarrow> error + Release"
  uninstallRun :: "string \<Rightarrow> string \<Rightarrow> error option"
  loaderLoad :: "path \<Rightarrow> error + ChartMetadata"
  pullRun :: "string \<Rightarrow> string \<Rightarrow> string \<Rightarrow> error + string"

definition getActionConfig :: "HelmClient \<Rightarrow> string \<Rightarrow> error option" where
  "getActionConfig c namespace =
     (case actionConfigInit c namespace of
        Some err \<Rightarrow> Some (Wrap ''failed to initialize helm action config: '' err)
      | None \<Rightarrow> None)"

definition releaseToInfo :: "Release \<Rightarrow> ReleaseInfo" where
  "releaseToInfo rel =
     (let info = \<lparr>ri_Name = rel_Name rel, ri_Namespace = rel_Namespace rel,
                   ri_Revision = rel_Version rel, ri_Status = rel_Status rel,
                   ri_ChartName = [], ri_ChartVersion = [], ri_AppVersion = [],
                   ri_Updated = 0\<rparr>;
          info1 = (case rel_Chart rel of
                     Some md \<Rightarrow> info\<lparr>ri_ChartName := md_Name md, ri_ChartVersion := md_Version md,
                                     ri_AppVersion := md_AppVersion md\<rparr>
                   | None \<Rightarrow> info)
      in if rel_LastDeployed rel \<noteq> 0 then info1\<lparr>ri_Updated := rel_LastDeployed rel\<rparr> else info1)"

definition pullChart :: "HelmClient \<Rightarrow> string \<Rightarrow> string \<Rightarrow> error + path" where
  "pullChart c chartName version =
     (case pullRun c (hc_repoURL c) version chartName of
        Inl err \<Rightarrow> Inl (Wrap ''failed to pull chart: '' err)
      | Inr output \<Rightarrow> Inr (filepath_Join (chartsPath c) [chartName]))"

definition locateChart :: "HelmClient \<Rightarrow> string \<Rightarrow> string \<Rightarrow> error + path" where
  "locateChart c chartName version =
     (let localPath = filepath_Join (chartsPath c) [chartName]
      in if osStat (hc_fs c) localPath then Inr localPath
         else if hc_repoURL c \<noteq> [] then pullChart c chartName version
         else Inl (Errorf (''chart '' @ chartName @ '' not found locally and no repository configured'')))"

definition Install ::
  "HelmClient \<Rightarrow> string \<Rightarrow> string \<Rightarrow> string \<Rightarrow> valuesMap \<Rightarrow> string \<Rightarrow> error + ReleaseInfo" where
  "Install c releaseName chartName namespace values version =
     (case getActionConfig c namespace of
        Some err \<Rightarrow> Inl err
      | None \<Rightarrow>
          (case locateChart c chartName version of
             Inl err \<Rightarrow> Inl (Wrap ''failed to locate chart: '' err)
           | Inr chartPath \<Rightarrow>
               (case loaderLoad c chartPath of
                  Inl err \<Rightarrow> Inl (Wrap ''failed to load chart: '' err)
                | Inr chart \<Rightarrow>
                    (case installRun c namespace releaseName version chart values of
                       Inl err \<Rightarrow> Inl (Wrap ''failed to install chart: '' err)
                     | Inr rel \<Rightarrow> Inr (releaseToInfo rel)))))"

definition Upgrade ::
  "HelmClient \<Rightarrow> string \<Rightarrow> string \<Rightarrow> string \<Rightarrow> valuesMap \<Rightarrow> string \<Rightarrow> error + ReleaseInfo" where
  "Upgrade c releaseName chartName namespace values version =
     (case getActionConfig c namespace of
        Some err \<Rightarrow> Inl err
      | None \<Rightarrow>
          (case locateChart c chartName version of
             Inl err \<Rightarrow> Inl (Wrap ''failed to locate chart: '' err)
           | Inr chartPath \<Rightarrow>
               (case loaderLoad c chartPath of
                  Inl err \<Rightarrow> Inl (Wrap ''failed to load chart: '' err)
                | Inr chart \<Rightarrow>
                    (case upgradeRun c namespace releaseName version chart values of
                       Inl err \<Rightarrow> Inl (Wrap ''failed to upgrade chart: '' err)
                     | Inr rel \<Rightarrow> Inr (releaseToInfo rel)))))"

definition Uninstall :: "HelmClient \<Rightarrow> string \<Rightarrow> string \<Rightarrow> error option" where
  "Uninstall c releaseName namespace =
     (case getActionConfig c namespace of
        Some err \<Rightarrow> Some err
      | None \<Rightarrow>
          (case uninstallRun c namespace releaseName of
             Some err \<Rightarrow> Some (Wrap ''failed to uninstall release: '' err)
           | None \<Rightarrow> None))"

text \<open>\<open>GetRelease\<close>: \<open>Inr None\<close> is the \<open>(nil, nil)\<close> of a release that is not there.\<close>

definition GetRelease :: "HelmClient \<Rightarrow> string \<Rightarrow> string \<Rightarrow> error + ReleaseInfo option" where
  "GetRelease c releaseName namespace =
     (case getActionConfig c namespace of
        Some err \<Rightarrow> Inl err
      | None \<Rightarrow>
          (case getRun c namespace releaseName of
             Inl err \<Rightarrow>
               if err = ErrReleaseNotFound then Inr None
               else Inl (Wrap ''failed to get release: '' err)
           | Inr rel \<Rightarrow> Inr (Some (releaseToInfo rel))))"

definition ReleaseExists :: "HelmClient \<Rightarrow> string \<Rightarrow> string \<Rightarrow> error + bool" where
  "ReleaseExists c releaseName namespace =
     (case GetRelease c releaseName namespace of
        Inl err \<Rightarrow> Inl err
      | Inr rel \<Rightarrow> Inr (rel \<noteq> None))"

section \<open>Convergence engine (controller)\<close>

definition finalizerName :: string where
  "finalizerName = ''appstore.bitpipe.no/finalizer''"

definition ConditionTypeReady :: string where
  "ConditionTypeReady = ''Ready''"

definition ConditionTypeReconciling :: string where
  "ConditionTypeReconciling = ''Reconciling''"

text \<open>Requeue intervals, in seconds.\<close>

definition requeueAfterSuccess :: nat where
  "requeueAfterSuccess = 5 * 60"

definition requeueAfterFailure :: nat where
  "requeueAfterFailure = 30"

record Result =
  Requeue :: bool
  RequeueAfter :: nat

definition emptyResult :: Result where
  "emptyResult = \<lparr>Requeue = False, RequeueAfter = 0\<rparr>"

text \<open>The \<open>ChartValidator\<close> interface, by what its two methods answer.\<close>

record ChartValidator =
  cv_ChartExists :: "string \<Rightarrow> bool"
  cv_ListCharts :: "error + string list"

definition syncerValidator :: "Syncer \<Rightarrow> ChartValidator" where
  "syncerValidator s = \<lparr>cv_ChartExists = ChartExists s, cv_ListCharts = ListCharts s\<rparr>"

text \<open>
  The reconciler: its Helm client, its validator (\<open>None\<close> is the nil interface), and the
  Kubernetes client by the outcome of each request: reading an AppDeployment, a ConfigMap
  or a Secret (the \<open>Data\<close> map of the object), writing the object and writing its status.
  \<open>now\<close> is the clock, read once for a pass.
\<close>

record AppDeploymentReconciler =
  HelmClient :: HelmClient
  ChartValidator :: "ChartValidator option"
  lib :: GoLib
  apiGet :: "string \<times> string \<Rightarrow> error + AppDeployment"
  apiGetConfigMap :: "string \<times> string \<Rightarrow> error + (string \<rightharpoonup> string)"
  apiGetSecret :: "string \<times> string \<Rightarrow> error + (string \<rightharpoonup> string)"
  apiUpdate :: "AppDeployment \<Rightarrow> error option"
  apiStatusUpdate :: "AppDeployment \<Rightarrow> error option"
  now :: nat

text \<open>
  The calls one pass makes on the Helm client and the writes it sends to the API server,
  in order. The log is how the model says which calls a pass made.
\<close>

datatype call =
    CallGetRelease string string
  | CallReleaseExists string string
  | CallInstall string string string valuesMap string
  | CallUpgrade string string string valuesMap string
  | CallUninstall string string
  | CallUpdate AppDeployment
  | CallStatusUpdate AppDeployment

fun isInstall :: "call \<Rightarrow> bool" where
  "isInstall (CallInstall n c ns v ver) = True"
| "isInstall x = False"

fun isUpgrade :: "call \<Rightarrow> bool" where
  "isUpgrade (CallUpgrade n c ns v ver) = True"
| "isUpgrade x = False"

fun isUninstall :: "call \<Rightarrow> bool" where
  "isUninstall (CallUninstall n ns) = True"
| "isUninstall x = False"

fun isUpdate :: "call \<Rightarrow> bool" where
  "isUpdate (CallUpdate a) = True"
| "isUpdate x = False"

text \<open>
  The state of a pass: the object in memory, which the pass mutates, and the log. A write
  the API server accepts leaves the object in memory as it was sent: what the server sets
  on it (the resource version) is no field of the model.
\<close>

record pass =
  obj :: AppDeployment
  calls :: "call list"

definition logCall :: "call \<Rightarrow> pass \<Rightarrow> pass" where
  "logCall c s = s\<lparr>calls := calls s @ [c]\<rparr>"

definition statusUpdate :: "AppDeploymentReconciler \<Rightarrow> pass \<Rightarrow> error option \<times> pass" where
  "statusUpdate r s = (apiStatusUpdate r (obj s), logCall (CallStatusUpdate (obj s)) s)"

definition updateStatusPhase ::
  "AppDeploymentReconciler \<Rightarrow> string \<Rightarrow> string \<Rightarrow> pass \<Rightarrow> error option \<times> pass" where
  "updateStatusPhase r phase message s =
     (let appDeployment = obj s;
          st = (Status appDeployment)
            \<lparr>Phase := phase,
             Message := message,
             LastReconcileTime := Some (now r),
             ObservedGeneration := Generation (ObjectMeta appDeployment),
             Conditions := SetStatusCondition (now r) (Conditions (Status appDeployment))
               \<lparr>c_Type = ConditionTypeReconciling, c_Status = ConditionTrue,
                c_ObservedGeneration = 0, c_LastTransitionTime = now r,
                c_Reason = phase, c_Message = message\<rparr>\<rparr>
      in statusUpdate r (s\<lparr>obj := appDeployment\<lparr>Status := st\<rparr>\<rparr>))"

definition updateStatusDeployed ::
  "AppDeploymentReconciler \<Rightarrow> ReleaseInfo \<Rightarrow> string \<Rightarrow> pass \<Rightarrow> (Result \<times> error option) \<times> pass" where
  "updateStatusDeployed r releaseInfo valuesHash s =
     (let appDeployment = obj s;
          conds1 = SetStatusCondition (now r) (Conditions (Status appDeployment))
               \<lparr>c_Type = ConditionTypeReady, c_Status = ConditionTrue,
                c_ObservedGeneration = 0, c_LastTransitionTime = now r,
                c_Reason = ''Deployed'', c_Message = ''Helm release is deployed and ready''\<rparr>;
          conds2 = SetStatusCondition (now r) conds1
               \<lparr>c_Type = ConditionTypeReconciling, c_Status = ConditionFalse,
                c_ObservedGeneration = 0, c_LastTransitionTime = now r,
                c_Reason = ''Deployed'', c_Message = ''Reconciliation complete''\<rparr>;
          st = (Status appDeployment)
            \<lparr>Phase := PhaseDeployed,
             Message := ''Helm release deployed successfully'',
             HelmReleaseName := ri_Name releaseInfo,
             HelmReleaseRevision := ri_Revision releaseInfo,
             DeployedChartVersion := ri_ChartVersion releaseInfo,
             LastAppliedValuesHash := valuesHash,
             LastReconcileTime := Some (now r),
             ObservedGeneration := Generation (ObjectMeta appDeployment),
             FailureCount := 0,
             Conditions := conds2\<rparr>
      in case statusUpdate r (s\<lparr>obj := appDeployment\<lparr>Status := st\<rparr>\<rparr>) of
           (Some err, s1) \<Rightarrow> ((emptyResult, Some err), s1)
         | (None, s1) \<Rightarrow> ((\<lparr>Requeue = False, RequeueAfter = requeueAfterSuccess\<rparr>, None), s1))"

definition updateStatusFailed ::
  "AppDeploymentReconciler \<Rightarrow> string \<Rightarrow> pass \<Rightarrow> (Result \<times> error option) \<times> pass" where
  "updateStatusFailed r message s =
     (let appDeployment = obj s;
          st = (Status appDeployment)
            \<lparr>Phase := PhaseFailed,
             Message := message,
             LastReconcileTime := Some (now r),
             ObservedGeneration := Generation (ObjectMeta appDeployment),
             FailureCount := wrapInt64 (FailureCount (Status appDeployment) + 1),
             Conditions := SetStatusCondition (now r) (Conditions (Status appDeployment))
               \<lparr>c_Type = ConditionTypeReady, c_Status = ConditionFalse,
                c_ObservedGeneration = 0, c_LastTransitionTime = now r,
                c_Reason = ''Failed'', c_Message = message\<rparr>\<rparr>
      in case statusUpdate r (s\<lparr>obj := appDeployment\<lparr>Status := st\<rparr>\<rparr>) of
           (Some err, s1) \<Rightarrow> ((emptyResult, Some err), s1)
         | (None, s1) \<Rightarrow> ((\<lparr>Requeue = False, RequeueAfter = requeueAfterFailure\<rparr>, None), s1))"

definition needsUpgrade :: "AppDeployment \<Rightarrow> ReleaseInfo \<Rightarrow> string \<Rightarrow> bool" where
  "needsUpgrade appDeployment release valuesHash =
     (if LastAppliedValuesHash (Status appDeployment) \<noteq> valuesHash then True
      else if ChartVersion (Spec appDeployment) \<noteq> []
              \<and> ChartVersion (Spec appDeployment) \<noteq> ri_ChartVersion release then True
      else False)"

definition getValuesFromReference ::
  "AppDeploymentReconciler \<Rightarrow> string \<Rightarrow> ValuesReference \<Rightarrow> error + valuesMap" where
  "getValuesFromReference r namespace ref =
     (let key = (if ValuesKey ref = [] then ''values.yaml'' else ValuesKey ref);
          fetched =
            (if Kind ref = ''ConfigMap'' then
               (case apiGetConfigMap r (namespace, vr_Name ref) of
                  Inl err \<Rightarrow> Inl err
                | Inr cmData \<Rightarrow>
                    (case cmData key of
                       None \<Rightarrow> Inl (Errorf (''key '' @ key @ '' not found in ConfigMap '' @ vr_Name ref))
                     | Some d \<Rightarrow> Inr d))
             else if Kind ref = ''Secret'' then
               (case apiGetSecret r (namespace, vr_Name ref) of
                  Inl err \<Rightarrow> Inl err
                | Inr secretData \<Rightarrow>
                    (case secretData key of
                       None \<Rightarrow> Inl (Errorf (''key '' @ key @ '' not found in Secret '' @ vr_Name ref))
                     | Some dataBytes \<Rightarrow> Inr dataBytes))
             else Inl (Errorf (''unsupported kind: '' @ Kind ref)))
      in case fetched of
           Inl err \<Rightarrow> Inl err
         | Inr d \<Rightarrow>
             (case unmarshalMap (lib r) d of
                Inl err \<Rightarrow> Inl (Wrap ''failed to unmarshal values: '' err)
              | Inr values \<Rightarrow> Inr values))"

text \<open>The loop of \<open>getValues\<close> over \<open>Spec.ValuesFrom\<close>, \<open>values\<close> the map built so far.\<close>

fun getValuesLoop ::
  "AppDeploymentReconciler \<Rightarrow> string \<Rightarrow> ValuesReference list \<Rightarrow> valuesMap \<Rightarrow> error + valuesMap" where
  "getValuesLoop r namespace [] values = Inr values"
| "getValuesLoop r namespace (ref # refs) values =
     (case getValuesFromReference r namespace ref of
        Inl err \<Rightarrow>
          if Optional ref then getValuesLoop r namespace refs values
          else Inl (Wrap (''failed to get values from '' @ Kind ref @ ''/'' @ vr_Name ref @ '': '') err)
      | Inr refValues \<Rightarrow> getValuesLoop r namespace refs (mergeMaps values refValues))"

definition getValues :: "AppDeploymentReconciler \<Rightarrow> AppDeployment \<Rightarrow> error + valuesMap" where
  "getValues r appDeployment =
     (case getValuesLoop r (Namespace (ObjectMeta appDeployment))
             (ValuesFrom (Spec appDeployment)) [] of
        Inl err \<Rightarrow> Inl err
      | Inr values \<Rightarrow>
          (case Values (Spec appDeployment) of
             None \<Rightarrow> Inr values
           | Some raw \<Rightarrow>
               (case unmarshalMap (lib r) raw of
                  Inl err \<Rightarrow> Inl (Wrap ''failed to unmarshal spec values: '' err)
                | Inr specValues \<Rightarrow> Inr (mergeMaps values specValues))))"

definition resolveReleaseName :: "AppDeployment \<Rightarrow> string" where
  "resolveReleaseName appDeployment =
     (if ReleaseName (Spec appDeployment) = [] then Name (ObjectMeta appDeployment)
      else ReleaseName (Spec appDeployment))"

text \<open>\<open>fmt.Sprintf("%v", charts)\<close> of a string slice.\<close>

definition showStrings :: "string list \<Rightarrow> string" where
  "showStrings xs = ''['' @ joinStrings '' '' xs @ '']''"

definition reconcileHelm ::
  "AppDeploymentReconciler \<Rightarrow> pass \<Rightarrow> (Result \<times> error option) \<times> pass" where
  "reconcileHelm r s =
     (let appDeployment = obj s;
          appName = AppName (Spec appDeployment);
          namespace = Namespace (ObjectMeta appDeployment);
          chartVersion = ChartVersion (Spec appDeployment)
      in case (case ChartValidator r of
                 None \<Rightarrow> None
               | Some v \<Rightarrow> if \<not> cv_ChartExists v appName then Some v else None) of
           Some v \<Rightarrow>
             (let availableCharts = (case cv_ListCharts v of Inl err \<Rightarrow> [] | Inr cs \<Rightarrow> cs);
                  msg = ''Chart '' @ [CHR 0x27] @ appName @ [CHR 0x27]
                        @ '' not found in catalog. Available charts: ''
                        @ showStrings availableCharts
              in updateStatusFailed r msg s)
         | None \<Rightarrow>
             (let releaseName = resolveReleaseName appDeployment
              in case getValues r appDeployment of
                   Inl err \<Rightarrow> updateStatusFailed r (''Failed to get values: '' @ errText err) s
                 | Inr values \<Rightarrow>
                     (let valuesHash = hashValues (lib r) values;
                          s1 = logCall (CallGetRelease releaseName namespace) s
                      in case GetRelease (HelmClient r) releaseName namespace of
                           Inl err \<Rightarrow>
                             updateStatusFailed r
                               (''Failed to check existing release: '' @ errText err) s1
                         | Inr None \<Rightarrow>
                             (case updateStatusPhase r PhaseInstalling ''Installing Helm chart'' s1 of
                                (Some err, s2) \<Rightarrow> ((emptyResult, Some err), s2)
                              | (None, s2) \<Rightarrow>
                                  (let s3 = logCall (CallInstall releaseName appName namespace
                                                       values chartVersion) s2
                                   in case Install (HelmClient r) releaseName appName namespace
                                             values chartVersion of
                                        Inl err \<Rightarrow>
                                          updateStatusFailed r
                                            (''Failed to install: '' @ errText err) s3
                                      | Inr releaseInfo \<Rightarrow>
                                          updateStatusDeployed r releaseInfo valuesHash s3))
                         | Inr (Some existingRelease) \<Rightarrow>
                             if needsUpgrade appDeployment existingRelease valuesHash then
                               (case updateStatusPhase r PhaseUpgrading ''Upgrading Helm chart'' s1 of
                                  (Some err, s2) \<Rightarrow> ((emptyResult, Some err), s2)
                                | (None, s2) \<Rightarrow>
                                    (let s3 = logCall (CallUpgrade releaseName appName namespace
                                                         values chartVersion) s2
                                     in case Upgrade (HelmClient r) releaseName appName namespace
                                               values chartVersion of
                                          Inl err \<Rightarrow>
                                            updateStatusFailed r
                                              (''Failed to upgrade: '' @ errText err) s3
                                        | Inr releaseInfo \<Rightarrow>
                                            updateStatusDeployed r releaseInfo valuesHash s3))
                             else updateStatusDeployed r existingRelease valuesHash s1)))"

definition reconcileDelete ::
  "AppDeploymentReconciler \<Rightarrow> pass \<Rightarrow> (Result \<times> error option) \<times> pass" where
  "reconcileDelete r s =
     (if ContainsFinalizer (obj s) finalizerName then
        (let releaseName = resolveReleaseName (obj s);
             namespace = Namespace (ObjectMeta (obj s))
         in case updateStatusPhase r PhaseUninstalling ''Uninstalling Helm release'' s of
              (Some err, s1) \<Rightarrow> ((emptyResult, Some err), s1)
            | (None, s1) \<Rightarrow>
                (let s2 = logCall (CallReleaseExists releaseName namespace) s1
                 in case ReleaseExists (HelmClient r) releaseName namespace of
                      Inl err \<Rightarrow>
                        ((\<lparr>Requeue = False, RequeueAfter = requeueAfterFailure\<rparr>, Some err), s2)
                    | Inr exists \<Rightarrow>
                        (case (if exists
                               then (Uninstall (HelmClient r) releaseName namespace,
                                     logCall (CallUninstall releaseName namespace) s2)
                               else (None, s2)) of
                           (Some err, s3) \<Rightarrow>
                             ((\<lparr>Requeue = False, RequeueAfter = requeueAfterFailure\<rparr>, Some err), s3)
                         | (None, s3) \<Rightarrow>
                             (let ad = RemoveFinalizer (obj s3) finalizerName;
                                  s4 = logCall (CallUpdate ad) (s3\<lparr>obj := ad\<rparr>)
                              in case apiUpdate r ad of
                                   Some err \<Rightarrow> ((emptyResult, Some err), s4)
                                 | None \<Rightarrow> ((emptyResult, None), s4)))))
      else ((emptyResult, None), s))"

text \<open>
  \<open>Reconcile\<close>: the pass is \<open>None\<close> when the object could not be read, so that nothing was
  done.
\<close>

definition Reconcile ::
  "AppDeploymentReconciler \<Rightarrow> string \<times> string \<Rightarrow> (Result \<times> error option) \<times> pass option" where
  "Reconcile r req =
     (case apiGet r req of
        Inl err \<Rightarrow>
          if IsNotFound err then ((emptyResult, None), None)
          else ((emptyResult, Some err), None)
      | Inr appDeployment \<Rightarrow>
          (let s = \<lparr>obj = appDeployment, calls = []\<rparr>
           in if \<not> timeIsZero (DeletionTimestamp (ObjectMeta appDeployment)) then
                (case reconcileDelete r s of (res, s1) \<Rightarrow> (res, Some s1))
              else if \<not> ContainsFinalizer appDeployment finalizerName then
                (let ad = AddFinalizer appDeployment finalizerName;
                     s1 = logCall (CallUpdate ad) (s\<lparr>obj := ad\<rparr>)
                 in case apiUpdate r ad of
                      Some err \<Rightarrow> ((emptyResult, Some err), Some s1)
                    | None \<Rightarrow> ((\<lparr>Requeue = True, RequeueAfter = 0\<rparr>, None), Some s1))
              else if Suspend (Spec appDeployment) then ((emptyResult, None), Some s)
              else (case reconcileHelm r s of (res, s1) \<Rightarrow> (res, Some s1))))"

section \<open>Message ingestion (rabbitmq handler)\<close>

record DeploymentRequestPayload =
  RequestID :: string
  p_TeamID :: string
  UserID :: string
  p_AppName :: string
  p_Namespace :: string
  p_ReleaseName :: string
  Version :: string
  p_Values :: "valuesMap option"

text \<open>
  The handler's Kubernetes client: the AppDeployments the API server holds, by namespace
  and name, and \<open>createFault\<close>, a failure of a create request for another reason than the
  name being taken (the server unreachable, the object refused), by its message.
\<close>

record DeploymentHandler =
  objects :: "string \<times> string \<rightharpoonup> AppDeployment"
  createFault :: "AppDeployment \<Rightarrow> string option"
  h_lib :: GoLib

definition objectKey :: "AppDeployment \<Rightarrow> string \<times> string" where
  "objectKey a = (Namespace (ObjectMeta a), Name (ObjectMeta a))"

definition clientCreate :: "DeploymentHandler \<Rightarrow> AppDeployment \<Rightarrow> error option \<times> DeploymentHandler" where
  "clientCreate h a =
     (case createFault h a of
        Some msg \<Rightarrow> (Some (StatusError ReasonOther msg), h)
      | None \<Rightarrow>
          (case objects h (objectKey a) of
             Some existing \<Rightarrow>
               (Some (StatusError ReasonAlreadyExists
                        (''appdeployments '' @ Name (ObjectMeta a) @ '' already exists'')), h)
           | None \<Rightarrow> (None, h\<lparr>objects := (objects h)(objectKey a \<mapsto> a)\<rparr>)))"

text \<open>\<open>s[:n]\<close> on a string: a panic when \<open>n\<close> exceeds the length in bytes.\<close>

definition slicePrefix :: "string \<Rightarrow> nat \<Rightarrow> error + string" where
  "slicePrefix s n =
     (if n \<le> length s then Inr (take n s)
      else Inl (Panic ''slice bounds out of range''))"

text \<open>\<open>json.Marshal\<close> of a values map decoded from JSON: it has no failing case.\<close>

definition marshalValues :: "GoLib \<Rightarrow> valuesMap \<Rightarrow> error + string" where
  "marshalValues L values = Inr (marshal (jsonQuote L) (JObj values))"

definition ensureNamespace :: "DeploymentHandler \<Rightarrow> string \<Rightarrow> error option" where
  "ensureNamespace h namespace = None"

definition emptyStatus :: AppDeploymentStatus where
  "emptyStatus = \<lparr>Phase = [], HelmReleaseName = [], HelmReleaseRevision = 0,
     DeployedChartVersion = [], LastAttemptedChartVersion = [], LastAppliedValuesHash = [],
     Conditions = [], LastReconcileTime = None, ObservedGeneration = 0, FailureCount = 0,
     Message = []\<rparr>"

text \<open>The object the handler builds for a payload, once the name and the values are known.\<close>

definition newAppDeployment :: "DeploymentRequestPayload \<Rightarrow> string \<Rightarrow> string option \<Rightarrow> AppDeployment" where
  "newAppDeployment payload name values =
     \<lparr>ObjectMeta =
        \<lparr>Name = name, Namespace = p_Namespace payload, Generation = 0,
         DeletionTimestamp = None, Finalizers = [],
         Labels = [(''appstore.bitpipe.no/team'', p_TeamID payload),
                   (''appstore.bitpipe.no/app'', p_AppName payload),
                   (''appstore.bitpipe.no/request-id'', RequestID payload)],
         Annotations = [(''appstore.bitpipe.no/requested-by'', UserID payload)]\<rparr>,
      Spec =
        \<lparr>AppName = p_AppName payload, ChartVersion = Version payload,
         TeamID = p_TeamID payload, RequestedBy = UserID payload, ReleaseName = name,
         Values = values, ValuesFrom = [], AutoUpgrade = False, Suspend = False\<rparr>,
      Status = emptyStatus\<rparr>"

definition resolveName :: "DeploymentRequestPayload \<Rightarrow> error + string" where
  "resolveName payload =
     (if p_ReleaseName payload = [] then
        (case slicePrefix (RequestID payload) 8 of
           Inl err \<Rightarrow> Inl err
         | Inr pre \<Rightarrow> Inr (p_AppName payload @ ''-'' @ pre))
      else Inr (p_ReleaseName payload))"

definition HandleDeploymentRequest ::
  "DeploymentHandler \<Rightarrow> DeploymentRequestPayload \<Rightarrow> error option \<times> DeploymentHandler" where
  "HandleDeploymentRequest h payload =
     (case resolveName payload of
        Inl err \<Rightarrow> (Some err, h)
      | Inr name \<Rightarrow>
          (case (case p_Values payload of
                   None \<Rightarrow> Inr None
                 | Some vs \<Rightarrow>
                     (case marshalValues (h_lib h) vs of
                        Inl err \<Rightarrow> Inl (Wrap ''failed to marshal values: '' err)
                      | Inr valuesBytes \<Rightarrow> Inr (Some valuesBytes))) of
             Inl err \<Rightarrow> (Some err, h)
           | Inr values \<Rightarrow>
               (let appDeployment = newAppDeployment payload name values
                in case ensureNamespace h (p_Namespace payload) of
                     Some err \<Rightarrow> (Some (Wrap ''failed to ensure namespace: '' err), h)
                   | None \<Rightarrow>
                       (case clientCreate h appDeployment of
                          (Some err, h1) \<Rightarrow>
                            if IsAlreadyExists err then (None, h1)
                            else (Some (Wrap ''failed to create AppDeployment: '' err), h1)
                        | (None, h1) \<Rightarrow> (None, h1)))))"

section \<open>Notions the properties are stated with\<close>

text \<open>The chart check at the head of \<open>reconcileHelm\<close> lets the record through.\<close>

definition chartAccepted :: "AppDeploymentReconciler \<Rightarrow> AppDeployment \<Rightarrow> bool" where
  "chartAccepted r appDeployment =
     (case ChartValidator r of
        None \<Rightarrow> True
      | Some v \<Rightarrow> cv_ChartExists v (AppName (Spec appDeployment)))"

text \<open>A status write that carries the given phase.\<close>

fun setsPhase :: "string \<Rightarrow> call \<Rightarrow> bool" where
  "setsPhase p (CallStatusUpdate a) = (Phase (Status a) = p)"
| "setsPhase p c = False"

text \<open>\<open>meta.IsStatusConditionTrue\<close>: the first condition of the type has status True.\<close>

fun IsStatusConditionTrue :: "Condition list \<Rightarrow> string \<Rightarrow> bool" where
  "IsStatusConditionTrue [] t = False"
| "IsStatusConditionTrue (c # cs) t =
     (if c_Type c = t then c_Status c = ConditionTrue else IsStatusConditionTrue cs t)"

text \<open>
  A values tree with the order of the keys forgotten: an object is the map from its keys
  to their trees. Two values maps are equal as key-value trees when \<open>treeOf\<close> maps them to
  the same tree.
\<close>

datatype tree =
    TNull
  | TBool bool
  | TNum string
  | TStr string
  | TArr "tree list"
  | TObj "string \<Rightarrow> tree option"

fun treeOf :: "json \<Rightarrow> tree" where
  "treeOf JNull = TNull"
| "treeOf (JBool b) = TBool b"
| "treeOf (JNum n) = TNum n"
| "treeOf (JStr s) = TStr s"
| "treeOf (JArr vs) = TArr (map treeOf vs)"
| "treeOf (JObj kvs) = TObj (map_of (map (\<lambda>(k, v). (k, treeOf v)) kvs))"



text \<open>A pass as \<open>Reconcile\<close> starts it: the object as read, no call made yet.\<close>

definition startPass :: "AppDeployment \<Rightarrow> pass" where
  "startPass appDeployment = \<lparr>obj = appDeployment, calls = []\<rparr>"

section \<open>A small world to run the code in\<close>

text \<open>
  One namespace \<open>ns1\<close>, one chart \<open>postgresql\<close> in the mirror \<open>/charts\<close> next to a hidden
  directory, a chart directory outside the mirror, one AppDeployment \<open>pg\<close> whose values come from the ConfigMap \<open>pg-values\<close> and from its
  own spec. The JSON decoder knows the two texts in use; the stand-in for SHA-256 returns
  the bytes of its input (the properties hold for any function in its place).
\<close>

definition exCmRaw :: string where
  "exCmRaw = ''{'' @ [CHR 0x22] @ ''replicas'' @ [CHR 0x22] @ '':1,'' @ [CHR 0x22] @ ''size''
             @ [CHR 0x22] @ '':'' @ [CHR 0x22] @ ''1Gi'' @ [CHR 0x22] @ ''}''"

definition exSpecRaw :: string where
  "exSpecRaw = ''{'' @ [CHR 0x22] @ ''replicas'' @ [CHR 0x22] @ '':3}''"

definition exLib :: GoLib where
  "exLib = \<lparr>jsonQuote = (\<lambda>s. [CHR 0x22] @ s @ [CHR 0x22]),
            jsonUnmarshal = (\<lambda>s.
              if s = exCmRaw then Inr (JObj [(''replicas'', JNum ''1''), (''size'', JStr ''1Gi'')])
              else if s = exSpecRaw then Inr (JObj [(''replicas'', JNum ''3'')])
              else Inl (Errorf ''invalid character'')),
            sha256Sum256 = map (\<lambda>c. of_nat (of_char c))\<rparr>"

definition exTree :: node where
  "exTree = Dir [(''charts'', Dir [(''.staging'', Dir [(''Chart.yaml'', File)]),
                                   (''README.md'', File),
                                   (''postgresql'', Dir [(''Chart.yaml'', File),
                                                         (''values.yaml'', File)])]),
                 (''home'', Dir [(''dev'', Dir [(''Chart.yaml'', File)])])]"

definition exSyncer :: Syncer where
  "exSyncer = \<lparr>repoURL = ''https://git.example/charts.git'', branch = ''main'',
               localPath = [''charts''], fs = exTree\<rparr>"

definition exChart :: ChartMetadata where
  "exChart = \<lparr>md_Name = ''postgresql'', md_Version = ''15.5.0'', md_AppVersion = ''16.3''\<rparr>"

definition exRelease :: "string \<Rightarrow> string \<Rightarrow> int \<Rightarrow> Release" where
  "exRelease namespace name revision =
     \<lparr>rel_Name = name, rel_Namespace = namespace, rel_Version = revision,
      rel_Status = ''deployed'', rel_LastDeployed = 900, rel_Chart = Some exChart\<rparr>"

text \<open>
  A Helm in which no release is installed: the get action reports every release as not
  found, and the uninstall action, which the client never tells to ignore a missing
  release, reports it as an error.
\<close>

definition exHelm :: HelmClient where
  "exHelm = \<lparr>chartsPath = [''charts''], hc_repoURL = [], hc_fs = exTree,
             actionConfigInit = (\<lambda>namespace. None),
             getRun = (\<lambda>namespace name. Inl ErrReleaseNotFound),
             installRun = (\<lambda>namespace name version chart vals. Inr (exRelease namespace name 1)),
             upgradeRun = (\<lambda>namespace name version chart vals. Inr (exRelease namespace name 2)),
             uninstallRun = (\<lambda>namespace name.
               Some (Errorf (''uninstall: Release not loaded: '' @ name @ '': release: not found''))),
             loaderLoad = (\<lambda>p. Inr exChart),
             pullRun = (\<lambda>url version chartRef. Inl (Errorf ''no repository''))\<rparr>"

text \<open>The same Helm with every release installed at revision 1.\<close>

definition exHelmInstalled :: HelmClient where
  "exHelmInstalled =
     exHelm\<lparr>getRun := (\<lambda>namespace name. Inr (exRelease namespace name 1)),
            uninstallRun := (\<lambda>namespace name. None)\<rparr>"

text \<open>Installed as well, with an uninstall action that fails.\<close>

definition exHelmStuck :: HelmClient where
  "exHelmStuck = exHelmInstalled\<lparr>uninstallRun := (\<lambda>namespace name. Some (Errorf ''timed out''))\<rparr>"

definition exAd :: AppDeployment where
  "exAd = \<lparr>ObjectMeta =
             \<lparr>Name = ''pg'', Namespace = ''ns1'', Generation = 1, DeletionTimestamp = None,
              Finalizers = [finalizerName], Labels = [], Annotations = []\<rparr>,
           Spec =
             \<lparr>AppName = ''postgresql'', ChartVersion = [], TeamID = ''t1'', RequestedBy = ''u1'',
              ReleaseName = [], Values = Some exSpecRaw,
              ValuesFrom = [\<lparr>Kind = ''ConfigMap'', vr_Name = ''pg-values'', ValuesKey = [],
                             Optional = False\<rparr>],
              AutoUpgrade = False, Suspend = False\<rparr>,
           Status = emptyStatus\<rparr>"

definition exDeleting :: AppDeployment where
  "exDeleting = exAd\<lparr>ObjectMeta := (ObjectMeta exAd)\<lparr>DeletionTimestamp := Some 950\<rparr>\<rparr>"

text \<open>
  The record with a reference to a ConfigMap that is not there put first: once required,
  once optional.
\<close>

definition exMissingRef :: ValuesReference where
  "exMissingRef = \<lparr>Kind = ''ConfigMap'', vr_Name = ''absent'', ValuesKey = [], Optional = False\<rparr>"

definition exAdRequired :: AppDeployment where
  "exAdRequired = exAd\<lparr>Spec := (Spec exAd)\<lparr>ValuesFrom := exMissingRef # ValuesFrom (Spec exAd)\<rparr>\<rparr>"

definition exAdOptional :: AppDeployment where
  "exAdOptional =
     exAd\<lparr>Spec := (Spec exAd)\<lparr>ValuesFrom := exMissingRef\<lparr>Optional := True\<rparr>
                                                   # ValuesFrom (Spec exAd)\<rparr>\<rparr>"

definition exSuspended :: AppDeployment where
  "exSuspended = exAd\<lparr>Spec := (Spec exAd)\<lparr>Suspend := True\<rparr>\<rparr>"

definition exSuspendedDeleting :: AppDeployment where
  "exSuspendedDeleting =
     exSuspended\<lparr>ObjectMeta := (ObjectMeta exSuspended)\<lparr>DeletionTimestamp := Some 950\<rparr>\<rparr>"

definition exSuspendedNew :: AppDeployment where
  "exSuspendedNew = exSuspended\<lparr>ObjectMeta := (ObjectMeta exSuspended)\<lparr>Finalizers := []\<rparr>\<rparr>"

definition exMerged :: valuesMap where
  "exMerged = [(''replicas'', JNum ''3''), (''size'', JStr ''1Gi'')]"

text \<open>The record after a first deployment, and the same with a chart version asked for.\<close>

definition exDeployed :: AppDeployment where
  "exDeployed =
     exAd\<lparr>Status := emptyStatus\<lparr>Phase := PhaseDeployed, HelmReleaseName := ''pg'',
                                    HelmReleaseRevision := 1, DeployedChartVersion := ''15.5.0'',
                                    LastAppliedValuesHash := hashValues exLib exMerged\<rparr>\<rparr>"

definition exPinned :: AppDeployment where
  "exPinned = exDeployed\<lparr>Spec := (Spec exDeployed)\<lparr>ChartVersion := ''16.0.0''\<rparr>\<rparr>"

definition exReconciler :: "HelmClient \<Rightarrow> AppDeployment \<Rightarrow> AppDeploymentReconciler" where
  "exReconciler helm stored =
     \<lparr>HelmClient = helm,
      ChartValidator = Some (syncerValidator exSyncer),
      lib = exLib,
      apiGet = (\<lambda>req. if req = (''ns1'', ''pg'') then Inr stored
                        else Inl (StatusError ReasonNotFound ''appdeployments not found'')),
      apiGetConfigMap = (\<lambda>req. if req = (''ns1'', ''pg-values'')
                                 then Inr [''values.yaml'' \<mapsto> exCmRaw]
                                 else Inl (StatusError ReasonNotFound ''configmaps not found'')),
      apiGetSecret = (\<lambda>req. Inl (StatusError ReasonNotFound ''secrets not found'')),
      apiUpdate = (\<lambda>a. None),
      apiStatusUpdate = (\<lambda>a. None),
      now = 1000\<rparr>"

text \<open>The same reconciler in front of an API server that refuses every status write.\<close>

definition exReconcilerConflict :: "HelmClient \<Rightarrow> AppDeployment \<Rightarrow> AppDeploymentReconciler" where
  "exReconcilerConflict helm stored =
     (exReconciler helm stored)\<lparr>apiStatusUpdate :=
        (\<lambda>a. Some (StatusError ReasonOther ''the object has been modified''))\<rparr>"

text \<open>The same reconciler in front of an API server that refuses every update of the object.\<close>

definition exReconcilerForbidden :: "HelmClient \<Rightarrow> AppDeployment \<Rightarrow> AppDeploymentReconciler" where
  "exReconcilerForbidden helm stored =
     (exReconciler helm stored)\<lparr>apiUpdate :=
        (\<lambda>a. Some (StatusError ReasonOther ''appdeployments is forbidden''))\<rparr>"

text \<open>
  A handler in front of an API server that holds no AppDeployment yet and has no fault, a
  deployment request without a release name, and the same request with a short id.
\<close>

definition exHandler :: DeploymentHandler where
  "exHandler = \<lparr>objects = Map.empty, createFault = (\<lambda>a. None), h_lib = exLib\<rparr>"

definition exRequest :: DeploymentRequestPayload where
  "exRequest = \<lparr>RequestID = ''3f2b8c1e-77aa-4d2e-9c55-0123456789ab'', p_TeamID = ''t1'',
                UserID = ''u1'', p_AppName = ''postgresql'', p_Namespace = ''ns1'',
                p_ReleaseName = [], Version = [], p_Values = None\<rparr>"

definition exShortRequest :: DeploymentRequestPayload where
  "exShortRequest = exRequest\<lparr>RequestID := ''req-42''\<rparr>"

text \<open>
  A request with the same request id for another application, the API server after the
  first request was handled, and the same server out of reach.
\<close>

definition exRequestRedis :: DeploymentRequestPayload where
  "exRequestRedis = exRequest\<lparr>p_AppName := ''redis''\<rparr>"

definition exHandlerAfter :: DeploymentHandler where
  "exHandlerAfter =
     exHandler\<lparr>objects := [(''ns1'', ''postgresql-3f2b8c1e'')
                  \<mapsto> newAppDeployment exRequest ''postgresql-3f2b8c1e'' None]\<rparr>"

definition exHandlerDown :: DeploymentHandler where
  "exHandlerDown = exHandlerAfter\<lparr>createFault := (\<lambda>a. Some ''connection refused'')\<rparr>"

text \<open>The same values map twice, its keys visited in two different orders.\<close>

definition exValuesA :: valuesMap where
  "exValuesA = [(''size'', JStr ''1Gi''), (''replicas'', JNum ''3''),
                (''auth'', JObj [(''user'', JStr ''app''), (''enabled'', JBool True)])]"

definition exValuesB :: valuesMap where
  "exValuesB = [(''auth'', JObj [(''enabled'', JBool True), (''user'', JStr ''app'')]),
                (''replicas'', JNum ''3''), (''size'', JStr ''1Gi'')]"

section \<open>Lemmas on the status writers\<close>

lemma phase_distinct:
  "PhaseInstalling \<noteq> PhaseUpgrading" "PhaseDeployed \<noteq> PhaseUpgrading"
  "PhaseFailed \<noteq> PhaseUpgrading" "PhaseUninstalling \<noteq> PhaseUpgrading"
  "PhaseInstalling \<noteq> PhaseDeployed" "PhaseInstalling \<noteq> PhaseFailed"
  "PhaseDeployed \<noteq> PhaseFailed" "PhaseUninstalling \<noteq> PhaseDeployed"
  by (simp_all add: PhaseInstalling_def PhaseUpgrading_def PhaseDeployed_def PhaseFailed_def
        PhaseUninstalling_def)

lemma startPass_simps: "obj (startPass a) = a" "calls (startPass a) = []"
  by (simp_all add: startPass_def)

lemma updateStatusPhase_obj:
  "Phase (Status (obj (snd (updateStatusPhase r p m s)))) = p"
  "Spec (obj (snd (updateStatusPhase r p m s))) = Spec (obj s)"
  "ObjectMeta (obj (snd (updateStatusPhase r p m s))) = ObjectMeta (obj s)"
  "calls (snd (updateStatusPhase r p m s))
     = calls s @ [CallStatusUpdate (obj (snd (updateStatusPhase r p m s)))]"
  "fst (updateStatusPhase r p m s) = apiStatusUpdate r (obj (snd (updateStatusPhase r p m s)))"
  by (simp_all add: updateStatusPhase_def Let_def statusUpdate_def logCall_def)

lemma updateStatusPhase_obj_calls:
  "obj (snd (updateStatusPhase r p m (logCall c s))) = obj (snd (updateStatusPhase r p m s))"
  by (simp add: updateStatusPhase_def Let_def statusUpdate_def logCall_def)

lemma updateStatusFailed_obj:
  "Phase (Status (obj (snd (updateStatusFailed r m s)))) = PhaseFailed"
  "FailureCount (Status (obj (snd (updateStatusFailed r m s))))
     = wrapInt64 (FailureCount (Status (obj s)) + 1)"
  "Spec (obj (snd (updateStatusFailed r m s))) = Spec (obj s)"
  "ObjectMeta (obj (snd (updateStatusFailed r m s))) = ObjectMeta (obj s)"
  "calls (snd (updateStatusFailed r m s))
     = calls s @ [CallStatusUpdate (obj (snd (updateStatusFailed r m s)))]"
  by (simp_all add: updateStatusFailed_def Let_def statusUpdate_def logCall_def
        split: option.splits)

lemma updateStatusFailed_res:
  "fst (updateStatusFailed r m s) =
     (case apiStatusUpdate r (obj (snd (updateStatusFailed r m s))) of
        Some err \<Rightarrow> (emptyResult, Some err)
      | None \<Rightarrow> (\<lparr>Requeue = False, RequeueAfter = requeueAfterFailure\<rparr>, None))"
  by (simp add: updateStatusFailed_def Let_def statusUpdate_def logCall_def split: option.splits)

lemma updateStatusDeployed_obj:
  "Phase (Status (obj (snd (updateStatusDeployed r ri h s)))) = PhaseDeployed"
  "HelmReleaseName (Status (obj (snd (updateStatusDeployed r ri h s)))) = ri_Name ri"
  "HelmReleaseRevision (Status (obj (snd (updateStatusDeployed r ri h s)))) = ri_Revision ri"
  "DeployedChartVersion (Status (obj (snd (updateStatusDeployed r ri h s)))) = ri_ChartVersion ri"
  "LastAppliedValuesHash (Status (obj (snd (updateStatusDeployed r ri h s)))) = h"
  "FailureCount (Status (obj (snd (updateStatusDeployed r ri h s)))) = 0"
  "Spec (obj (snd (updateStatusDeployed r ri h s))) = Spec (obj s)"
  "ObjectMeta (obj (snd (updateStatusDeployed r ri h s))) = ObjectMeta (obj s)"
  "calls (snd (updateStatusDeployed r ri h s))
     = calls s @ [CallStatusUpdate (obj (snd (updateStatusDeployed r ri h s)))]"
  by (simp_all add: updateStatusDeployed_def Let_def statusUpdate_def logCall_def
        split: option.splits)

lemma updateStatusDeployed_res:
  "fst (updateStatusDeployed r ri h s) =
     (case apiStatusUpdate r (obj (snd (updateStatusDeployed r ri h s))) of
        Some err \<Rightarrow> (emptyResult, Some err)
      | None \<Rightarrow> (\<lparr>Requeue = False, RequeueAfter = requeueAfterSuccess\<rparr>, None))"
  by (simp add: updateStatusDeployed_def Let_def statusUpdate_def logCall_def split: option.splits)

lemma IsStatusConditionTrue_set:
  "c_Type new = t \<Longrightarrow>
     IsStatusConditionTrue (SetStatusCondition n cs new) t = (c_Status new = ConditionTrue)"
  by (induction cs) (auto simp: Let_def)

lemma IsStatusConditionTrue_other:
  "c_Type new \<noteq> t \<Longrightarrow>
     IsStatusConditionTrue (SetStatusCondition n cs new) t = IsStatusConditionTrue cs t"
  by (induction cs) (auto simp: Let_def)

lemma updateStatusDeployed_ready:
  "IsStatusConditionTrue (Conditions (Status (obj (snd (updateStatusDeployed r ri h s)))))
     ConditionTypeReady"
  by (simp add: updateStatusDeployed_def Let_def statusUpdate_def logCall_def
        IsStatusConditionTrue_set IsStatusConditionTrue_other ConditionTypeReady_def
        ConditionTypeReconciling_def
      split: option.splits)

lemma ContainsFinalizer_Remove: "\<not> ContainsFinalizer (RemoveFinalizer a f) f"
  by (simp add: ContainsFinalizer_def RemoveFinalizer_def)

lemma ContainsFinalizer_phase:
  "ContainsFinalizer (obj (snd (updateStatusPhase r p m s))) f = ContainsFinalizer (obj s) f"
  by (simp add: ContainsFinalizer_def updateStatusPhase_obj)

lemma logCall_simps: "calls (logCall c s) = calls s @ [c]" "obj (logCall c s) = obj s"
  by (simp_all add: logCall_def)

text \<open>The definitions of the small world, and of the Helm client's short functions.\<close>

lemmas ex_world_defs =
  exReconciler_def exHelm_def exHelmInstalled_def exHelmStuck_def exAd_def exDeleting_def
  exAdRequired_def exAdOptional_def exMissingRef_def
  exSuspended_def exSuspendedDeleting_def exSuspendedNew_def exRelease_def exChart_def
  exDeployed_def exPinned_def exReconcilerConflict_def exReconcilerForbidden_def
  finalizerName_def emptyStatus_def

lemmas helm_defs =
  GetRelease_def ReleaseExists_def Uninstall_def getActionConfig_def releaseToInfo_def

section \<open>Lemmas on the branches of reconcileHelm\<close>

lemma reconcileHelm_absent:
  assumes "chartAccepted r (obj s)"
    and "getValues r (obj s) = Inr values"
    and "GetRelease (HelmClient r) (resolveReleaseName (obj s)) (Namespace (ObjectMeta (obj s))) = Inr None"
  shows "reconcileHelm r s =
     (let releaseName = resolveReleaseName (obj s);
          appName = AppName (Spec (obj s));
          namespace = Namespace (ObjectMeta (obj s));
          chartVersion = ChartVersion (Spec (obj s));
          s1 = logCall (CallGetRelease releaseName namespace) s
      in case updateStatusPhase r PhaseInstalling ''Installing Helm chart'' s1 of
           (Some err, s2) \<Rightarrow> ((emptyResult, Some err), s2)
         | (None, s2) \<Rightarrow>
            (let s3 = logCall (CallInstall releaseName appName namespace values chartVersion) s2
             in case Install (HelmClient r) releaseName appName namespace values chartVersion of
                  Inl err \<Rightarrow> updateStatusFailed r (''Failed to install: '' @ errText err) s3
                | Inr releaseInfo \<Rightarrow>
                    updateStatusDeployed r releaseInfo (hashValues (lib r) values) s3))"
  using assms unfolding reconcileHelm_def chartAccepted_def Let_def
  by (simp split: option.splits)

lemma reconcileHelm_present:
  assumes "chartAccepted r (obj s)"
    and "getValues r (obj s) = Inr values"
    and "GetRelease (HelmClient r) (resolveReleaseName (obj s)) (Namespace (ObjectMeta (obj s))) = Inr (Some rel)"
  shows "reconcileHelm r s =
     (let releaseName = resolveReleaseName (obj s);
          appName = AppName (Spec (obj s));
          namespace = Namespace (ObjectMeta (obj s));
          chartVersion = ChartVersion (Spec (obj s));
          valuesHash = hashValues (lib r) values;
          s1 = logCall (CallGetRelease releaseName namespace) s
      in if needsUpgrade (obj s) rel valuesHash then
           (case updateStatusPhase r PhaseUpgrading ''Upgrading Helm chart'' s1 of
              (Some err, s2) \<Rightarrow> ((emptyResult, Some err), s2)
            | (None, s2) \<Rightarrow>
               (let s3 = logCall (CallUpgrade releaseName appName namespace values chartVersion) s2
                in case Upgrade (HelmClient r) releaseName appName namespace values chartVersion of
                     Inl err \<Rightarrow> updateStatusFailed r (''Failed to upgrade: '' @ errText err) s3
                   | Inr releaseInfo \<Rightarrow> updateStatusDeployed r releaseInfo valuesHash s3))
         else updateStatusDeployed r rel valuesHash s1)"
  using assms unfolding reconcileHelm_def chartAccepted_def Let_def
  by (simp split: option.splits)

section \<open>Lemmas on the small world\<close>

lemma ex_chartAccepted:
  "AppName (Spec a) = ''postgresql'' \<Longrightarrow> chartAccepted (exReconciler h st) a"
  by (simp add: chartAccepted_def exReconciler_def syncerValidator_def ChartExists_def exSyncer_def
        GetChartPath_def filepath_Join_def components_def osStat_def exTree_def)

lemma ex_getValues_gen:
  "lib r = exLib \<Longrightarrow> apiGetConfigMap r (''ns1'', ''pg-values'') = Inr [''values.yaml'' \<mapsto> exCmRaw] \<Longrightarrow>
   Namespace (ObjectMeta a) = ''ns1'' \<Longrightarrow> ValuesFrom (Spec a) = ValuesFrom (Spec exAd) \<Longrightarrow>
   Values (Spec a) = Some exSpecRaw \<Longrightarrow> getValues r a = Inr exMerged"
  by (simp add: getValues_def exAd_def getValuesFromReference_def unmarshalMap_def
        exLib_def exCmRaw_def exSpecRaw_def exMerged_def)

lemma ex_getValues:
  "Namespace (ObjectMeta a) = ''ns1'' \<Longrightarrow> ValuesFrom (Spec a) = ValuesFrom (Spec exAd) \<Longrightarrow>
   Values (Spec a) = Some exSpecRaw \<Longrightarrow> getValues (exReconciler h st) a = Inr exMerged"
  "Namespace (ObjectMeta a) = ''ns1'' \<Longrightarrow> ValuesFrom (Spec a) = ValuesFrom (Spec exAd) \<Longrightarrow>
   Values (Spec a) = Some exSpecRaw \<Longrightarrow> getValues (exReconcilerConflict h st) a = Inr exMerged"
  by (rule ex_getValues_gen; simp add: exReconciler_def exReconcilerConflict_def)+

lemma ex_fields:
  "HelmClient (exReconciler h st) = h" "lib (exReconciler h st) = exLib"
  "apiStatusUpdate (exReconciler h st) a = None" "apiUpdate (exReconciler h st) a = None"
  "apiGet (exReconciler h st) (''ns1'', ''pg'') = Inr st"
  "HelmClient (exReconcilerConflict h st) = h" "lib (exReconcilerConflict h st) = exLib"
  "apiStatusUpdate (exReconcilerConflict h st) a = Some (StatusError ReasonOther ''the object has been modified'')"
  by (simp_all add: exReconciler_def exReconcilerConflict_def)

lemma ex_conflict_same:
  "chartAccepted (exReconcilerConflict h st) a = chartAccepted (exReconciler h st) a"
  by (simp add: chartAccepted_def exReconcilerConflict_def exReconciler_def)

lemma ex_names:
  "resolveReleaseName exAd = ''pg''" "Namespace (ObjectMeta exAd) = ''ns1''"
  "AppName (Spec exAd) = ''postgresql''" "ChartVersion (Spec exAd) = []"
  "resolveReleaseName exDeployed = ''pg''" "Namespace (ObjectMeta exDeployed) = ''ns1''"
  "AppName (Spec exDeployed) = ''postgresql''" "ChartVersion (Spec exDeployed) = []"
  "resolveReleaseName exPinned = ''pg''" "Namespace (ObjectMeta exPinned) = ''ns1''"
  "AppName (Spec exPinned) = ''postgresql''" "ChartVersion (Spec exPinned) = ''16.0.0''"
  by (simp_all add: resolveReleaseName_def ex_world_defs)

lemma ex_helm:
  "GetRelease exHelm ''pg'' ''ns1'' = Inr None"
  "ReleaseExists exHelm ''pg'' ''ns1'' = Inr False"
  "Uninstall exHelm ''pg'' ''ns1'' = Some (Wrap ''failed to uninstall release: ''
      (Errorf ''uninstall: Release not loaded: pg: release: not found''))"
  "GetRelease exHelmInstalled ''pg'' ''ns1'' = Inr (Some (releaseToInfo (exRelease ''ns1'' ''pg'' 1)))"
  by (simp_all add: helm_defs exHelm_def exHelmInstalled_def)

lemma ex_install:
  "Install exHelm ''pg'' ''postgresql'' ''ns1'' vs ver = Inr (releaseToInfo (exRelease ''ns1'' ''pg'' 1))"
  by (simp add: Install_def getActionConfig_def locateChart_def exHelm_def filepath_Join_def
        components_def osStat_def exTree_def)

lemma ex_upgrade:
  "Upgrade exHelmInstalled ''pg'' ''postgresql'' ''ns1'' vs ver = Inr (releaseToInfo (exRelease ''ns1'' ''pg'' 2))"
  by (simp add: Upgrade_def getActionConfig_def locateChart_def exHelm_def exHelmInstalled_def filepath_Join_def
        components_def osStat_def exTree_def)

section \<open>Lemmas on the request handler\<close>

lemma handle_resolved:
  assumes n: "resolveName payload = Inr name"
  shows "HandleDeploymentRequest h payload =
     (let a = newAppDeployment payload name
                (case p_Values payload of None \<Rightarrow> None
                 | Some vs \<Rightarrow> Some (marshal (jsonQuote (h_lib h)) (JObj vs)))
      in case createFault h a of
           Some msg \<Rightarrow>
             (Some (Wrap ''failed to create AppDeployment: '' (StatusError ReasonOther msg)), h)
         | None \<Rightarrow>
             (case objects h (p_Namespace payload, name) of
                Some existing \<Rightarrow> (None, h)
              | None \<Rightarrow> (None, h\<lparr>objects := (objects h)((p_Namespace payload, name) \<mapsto> a)\<rparr>)))"
  by (simp add: HandleDeploymentRequest_def n marshalValues_def ensureNamespace_def clientCreate_def
        Let_def objectKey_def newAppDeployment_def split: option.splits)

section \<open>Lemmas on values: merging and marshalling\<close>




lemma marshal_obj_alt:
  "marshal q (JObj kvs) =
     ''{'' @ joinStrings '','' (map (\<lambda>(k, m). q k @ '':'' @ m)
                                  (map (\<lambda>(k, v). (k, marshal q v)) (sort_key fst kvs))) @ ''}''"
  by (simp add: split_def o_def)

lemma distinct_fst_sort_key:
  "distinct (map fst kvs) \<Longrightarrow> distinct (map fst (sort_key fst kvs))"
  by (simp add: distinct_map)

lemma rendered_entries_unique:
  fixes xs ys :: "(string \<times> string) list"
  assumes "sorted (map fst xs)" "distinct (map fst xs)" "sorted (map fst ys)" "distinct (map fst ys)"
    and "set xs = set ys"
  shows "xs = ys"
proof (rule map_sorted_distinct_set_unique[where f = fst])
  show "inj_on fst (set xs \<union> set ys)"
    using assms(2,5) by (simp add: distinct_map)
qed (use assms in auto)

lemma treeOf_lookup:
  "map_of (map (\<lambda>(k, v). (k, treeOf v)) kvs) k = map_option treeOf (map_of kvs k)"
  by (simp add: map_of_map)

lemma entries_subset:
  assumes da: "distinct (map fst a)"
    and eq: "map_of (map (\<lambda>(k, v). (k, treeOf v)) a) = map_of (map (\<lambda>(k, v). (k, treeOf v)) b)"
    and ih: "\<And>k v v'. (k, v) \<in> set a \<Longrightarrow> (k, v') \<in> set b \<Longrightarrow> treeOf v = treeOf v' \<Longrightarrow> g v = g v'"
  shows "(\<lambda>(k, v). (k, g v)) ` set a \<subseteq> (\<lambda>(k, v). (k, g v)) ` set b"
proof
  fix x assume "x \<in> (\<lambda>(k, v). (k, g v)) ` set a"
  then obtain k v where kv: "(k, v) \<in> set a" and x: "x = (k, g v)" by auto
  have "map_of a k = Some v" using da kv by simp
  then have "map_option treeOf (map_of b k) = Some (treeOf v)"
    using eq treeOf_lookup[of a k] treeOf_lookup[of b k] by simp
  then obtain v' where b: "map_of b k = Some v'" and t: "treeOf v' = treeOf v" by auto
  have "(k, v') \<in> set b" using b by (rule map_of_SomeD)
  moreover have "g v = g v'" using ih[OF kv \<open>(k, v') \<in> set b\<close>] t by simp
  ultimately show "x \<in> (\<lambda>(k, v). (k, g v)) ` set b" using x by force
qed

lemma marshal_treeOf:
  "wf_json a \<Longrightarrow> wf_json b \<Longrightarrow> treeOf a = treeOf b \<Longrightarrow> marshal q a = marshal q b"
proof (induction a arbitrary: b)
  case JNull
  then show ?case by (cases b) simp_all
next
  case (JBool x)
  then show ?case by (cases b) simp_all
next
  case (JNum x)
  then show ?case by (cases b) simp_all
next
  case (JStr x)
  then show ?case by (cases b) simp_all
next
  case (JArr vs)
  then obtain ws where b: "b = JArr ws" and m: "map treeOf vs = map treeOf ws"
    by (cases b) simp_all
  have wfw: "\<forall>w \<in> set ws. wf_json w" using JArr.prems(2) b by simp
  have wfv: "\<forall>v \<in> set vs. wf_json v" using JArr.prems(1) by simp
  have len: "length vs = length ws" using m by (rule map_eq_imp_length_eq)
  have "map (marshal q) vs = map (marshal q) ws"
  proof (rule nth_equalityI)
    show "length (map (marshal q) vs) = length (map (marshal q) ws)" using len by simp
  next
    fix i assume "i < length (map (marshal q) vs)"
    then have i: "i < length vs" "i < length ws" using len by simp_all
    have "treeOf (vs ! i) = treeOf (ws ! i)"
      using m i by (metis nth_map)
    then have "marshal q (vs ! i) = marshal q (ws ! i)"
      using JArr.IH[of "vs ! i" "ws ! i"] i wfv wfw by simp
    then show "map (marshal q) vs ! i = map (marshal q) ws ! i" using i by simp
  qed
  then show ?case using b by simp
next
  case (JObj kvs)
  then obtain kws where b: "b = JObj kws"
    and m: "map_of (map (\<lambda>(k, v). (k, treeOf v)) kvs) = map_of (map (\<lambda>(k, v). (k, treeOf v)) kws)"
    by (cases b) simp_all
  have da: "distinct (map fst kvs)" and wa: "\<forall>kv \<in> set kvs. wf_json (snd kv)"
    using JObj.prems(1) by simp_all
  have db: "distinct (map fst kws)" and wb: "\<forall>kv \<in> set kws. wf_json (snd kv)"
    using JObj.prems(2) b by simp_all
  have ih: "marshal q v = marshal q v'"
    if "(k, v) \<in> set kvs" "(k', v') \<in> set kws" "treeOf v = treeOf v'" for k k' v v'
    using JObj.IH[of "(k, v)" v v'] that wa wb by force
  let ?r = "\<lambda>(k, v). (k, marshal q v)"
  let ?xs = "map ?r (sort_key fst kvs)"
  let ?ys = "map ?r (sort_key fst kws)"
  have f: "fst \<circ> ?r = fst"
    by (simp add: fun_eq_iff)
  have s1: "?r ` set kvs \<subseteq> ?r ` set kws"
    by (rule entries_subset[OF da m]) (use ih in blast)
  have s2: "?r ` set kws \<subseteq> ?r ` set kvs"
    by (rule entries_subset[OF db m[symmetric]]) (use ih in metis)
  have "?xs = ?ys"
  proof (rule rendered_entries_unique)
    show "sorted (map fst ?xs)" "sorted (map fst ?ys)" by (simp_all add: f)
    show "distinct (map fst ?xs)" using da by (simp add: f distinct_fst_sort_key)
    show "distinct (map fst ?ys)" using db by (simp add: f distinct_fst_sort_key)
    show "set ?xs = set ?ys" using s1 s2 by auto
  qed
  then show ?case unfolding b marshal_obj_alt by simp
qed

section \<open>Lemmas on the mirror\<close>

text \<open>
  Where the two queries agree: on a name of one path element that does not start with a
  dot, when the mirror's path is clean and \<open>ListCharts\<close> returns a list.
\<close>

lemma components_aux_plain:
  "CHR ''/'' \<notin> set s \<Longrightarrow> cur @ s \<noteq> [] \<Longrightarrow> components_aux cur s = [cur @ s]"
  by (induction s arbitrary: cur) auto

lemma components_plain:
  "CHR ''/'' \<notin> set name \<Longrightarrow> name \<noteq> [] \<Longrightarrow> components name = [name]"
  using components_aux_plain[of name "[]"] by (simp add: components_def)

lemma cleanElems_clean:
  "\<forall>e \<in> set es. e \<noteq> ''.'' \<and> e \<noteq> ''..'' \<Longrightarrow> cleanElems acc es = rev acc @ es"
  by (induction es arbitrary: acc) auto

lemma resolve_append:
  "resolve n (p @ q) = (case resolve n p of None \<Rightarrow> None | Some m \<Rightarrow> resolve m q)"
  by (induction n p rule: resolve.induct) (auto split: option.splits)

lemma hd_not_dot: "name \<noteq> [] \<Longrightarrow> hd name \<noteq> CHR ''.'' \<Longrightarrow> name \<noteq> ''.'' \<and> name \<noteq> ''..''"
  by (cases name) auto

lemma chart_path_plain:
  assumes "\<forall>e \<in> set lp. e \<noteq> ''.'' \<and> e \<noteq> ''..''"
    and "name \<noteq> []" "CHR ''/'' \<notin> set name" "hd name \<noteq> CHR ''.''"
  shows "filepath_Join lp [name, ''Chart.yaml''] = lp @ [name, ''Chart.yaml'']"
    and "filepath_Join (filepath_Join lp [name]) [''Chart.yaml''] = lp @ [name, ''Chart.yaml'']"
proof -
  have c: "components name = [name]" using assms by (simp add: components_plain)
  have y: "components ''Chart.yaml'' = [''Chart.yaml'']" by (simp add: components_def)
  have nd: "name \<noteq> ''.'' \<and> name \<noteq> ''..''" using assms hd_not_dot by blast
  show "filepath_Join lp [name, ''Chart.yaml''] = lp @ [name, ''Chart.yaml'']"
    using assms(1) nd by (simp add: filepath_Join_def c y cleanElems_clean)
  have "filepath_Join lp [name] = lp @ [name]"
    using assms(1) nd by (simp add: filepath_Join_def c cleanElems_clean)
  then show "filepath_Join (filepath_Join lp [name]) [''Chart.yaml''] = lp @ [name, ''Chart.yaml'']"
    using assms(1) nd by (simp add: filepath_Join_def y cleanElems_clean)
qed

lemma listChartsLoop_set:
  "listChartsLoop s entries acc = Inr charts \<Longrightarrow>
   set charts = set acc \<union>
     {nm. \<exists>n. (nm, n) \<in> set entries \<and> IsDir n \<and> nm \<noteq> [] \<and> hd nm \<noteq> CHR ''.''
            \<and> osStat (fs s) (filepath_Join (localPath s) [nm, ''Chart.yaml''])}"
proof (induction entries arbitrary: acc)
  case Nil
  then show ?case by simp
next
  case (Cons e entries)
  obtain nm n where e: "e = (nm, n)" by (cases e)
  show ?case
  proof (cases "IsDir n")
    case False
    then have "listChartsLoop s entries acc = Inr charts" using Cons.prems e by simp
    from Cons.IH[OF this] show ?thesis using False e by auto
  next
    case True
    show ?thesis
    proof (cases nm)
      case Nil
      then show ?thesis using Cons.prems e True by simp
    next
      case (Cons c cs)
      show ?thesis
      proof (cases "c \<noteq> CHR ''.'' \<and> osStat (fs s) (filepath_Join (localPath s) [nm, ''Chart.yaml''])")
        case yes: True
        then have "listChartsLoop s entries (acc @ [nm]) = Inr charts"
          using Cons.prems e True Cons by simp
        from Cons.IH[OF this] show ?thesis using yes e True Cons by auto
      next
        case no: False
        then have "listChartsLoop s entries acc = Inr charts"
          using Cons.prems e True Cons by (auto split: if_splits)
        from Cons.IH[OF this] show ?thesis using no e True Cons by auto
      qed
    qed
  qed
qed

lemma ChartExists_iff_listed_plain:
  assumes dir: "resolve (fs s) (localPath s) = Some (Dir entries)"
    and clean: "\<forall>e \<in> set (localPath s). e \<noteq> ''.'' \<and> e \<noteq> ''..''"
    and plain: "name \<noteq> []" "CHR ''/'' \<notin> set name" "hd name \<noteq> CHR ''.''"
    and listed: "ListCharts s = Inr charts"
  shows "ChartExists s name \<longleftrightarrow> name \<in> set charts"
proof -
  let ?p = "localPath s @ [name, ''Chart.yaml'']"
  have ex: "ChartExists s name = osStat (fs s) ?p"
    using chart_path_plain(2)[OF clean plain] by (simp add: ChartExists_def GetChartPath_def Let_def)
  have st: "osStat (fs s) ?p = (\<exists>n. (name, n) \<in> set entries \<and> IsDir n \<and> osStat (fs s) ?p)"
  proof
    assume a: "osStat (fs s) ?p"
    then obtain n where n: "map_of entries name = Some n" and r: "resolve n [''Chart.yaml''] \<noteq> None"
      using dir by (auto simp: osStat_def resolve_append split: option.splits)
    have "IsDir n" using r by (cases n) simp_all
    moreover have "(name, n) \<in> set entries" using n by (rule map_of_SomeD)
    ultimately show "\<exists>n. (name, n) \<in> set entries \<and> IsDir n \<and> osStat (fs s) ?p" using a by blast
  qed blast
  have loop: "listChartsLoop s (sort_key fst entries) [] = Inr charts"
    using listed dir by (simp add: ListCharts_def osReadDir_def)
  have "name \<in> set charts \<longleftrightarrow>
      (\<exists>n. (name, n) \<in> set entries \<and> IsDir n \<and> name \<noteq> [] \<and> hd name \<noteq> CHR ''.''
            \<and> osStat (fs s) (filepath_Join (localPath s) [name, ''Chart.yaml'']))"
    using listChartsLoop_set[OF loop] by auto
  also have "\<dots> \<longleftrightarrow> (\<exists>n. (name, n) \<in> set entries \<and> IsDir n \<and> osStat (fs s) ?p)"
    using plain chart_path_plain(1)[OF clean plain] by simp
  finally show ?thesis using ex st by simp
qed

lemma reconcileDelete_phase:
  "ContainsFinalizer (obj s) finalizerName \<Longrightarrow>
     Phase (Status (obj (snd (reconcileDelete r s)))) = PhaseUninstalling"
  by (auto simp: reconcileDelete_def Let_def case_prod_beta updateStatusPhase_obj logCall_simps
        RemoveFinalizer_def split: option.splits sum.splits)

section \<open>Suspended records (C1)\<close>

text \<open>
  C1, as amended. \<open>Reconcile\<close> looks at the deletion timestamp first, at the finalizer
  second and at \<open>Spec.Suspend\<close> third. For a suspended record that is not being deleted and
  carries the finalizer (or is being deleted and carries none), the pass is a no-op: the
  object is as read, no call is made, the result asks for no requeue and there is no
  error. For a suspended record that is not being deleted and has no finalizer yet, the
  status is still as read and the only call is the update of the object with the
  finalizer added: when that update goes through the result asks for an immediate
  requeue, when it fails the result is its error with no requeue. For a suspended record
  that is being deleted and carries the finalizer, the pass is the one \<open>reconcileDelete\<close>
  makes, and the object ends with phase Uninstalling.
\<close>

theorem C1_suspended_noop:
  assumes get: "apiGet r req = Inr ad"
    and susp: "Suspend (Spec ad)"
  shows "(timeIsZero (DeletionTimestamp (ObjectMeta ad)) = ContainsFinalizer ad finalizerName \<longrightarrow>
            Reconcile r req = ((emptyResult, None), Some (startPass ad)))
     \<and> (timeIsZero (DeletionTimestamp (ObjectMeta ad)) \<and> \<not> ContainsFinalizer ad finalizerName \<longrightarrow>
            Reconcile r req =
              ((case apiUpdate r (AddFinalizer ad finalizerName) of
                  Some err \<Rightarrow> (emptyResult, Some err)
                | None \<Rightarrow> (\<lparr>Requeue = True, RequeueAfter = 0\<rparr>, None)),
               Some \<lparr>obj = AddFinalizer ad finalizerName,
                     calls = [CallUpdate (AddFinalizer ad finalizerName)]\<rparr>)
            \<and> Status (AddFinalizer ad finalizerName) = Status ad)
     \<and> (\<not> timeIsZero (DeletionTimestamp (ObjectMeta ad)) \<and> ContainsFinalizer ad finalizerName \<longrightarrow>
            Reconcile r req = (fst (reconcileDelete r (startPass ad)),
                               Some (snd (reconcileDelete r (startPass ad))))
            \<and> Phase (Status (obj (snd (reconcileDelete r (startPass ad))))) = PhaseUninstalling)"
proof -
  have a: "Reconcile r req = ((emptyResult, None), Some (startPass ad))"
    if "timeIsZero (DeletionTimestamp (ObjectMeta ad)) = ContainsFinalizer ad finalizerName"
    using get susp that
    by (auto simp: Reconcile_def reconcileDelete_def startPass_def Let_def)
  have b: "Reconcile r req =
              ((case apiUpdate r (AddFinalizer ad finalizerName) of
                  Some err \<Rightarrow> (emptyResult, Some err)
                | None \<Rightarrow> (\<lparr>Requeue = True, RequeueAfter = 0\<rparr>, None)),
               Some \<lparr>obj = AddFinalizer ad finalizerName,
                     calls = [CallUpdate (AddFinalizer ad finalizerName)]\<rparr>)
            \<and> Status (AddFinalizer ad finalizerName) = Status ad"
    if "timeIsZero (DeletionTimestamp (ObjectMeta ad))" "\<not> ContainsFinalizer ad finalizerName"
    using get that
    by (auto simp: Reconcile_def Let_def logCall_def AddFinalizer_def ContainsFinalizer_def
          split: option.splits)
  have c: "Reconcile r req = (fst (reconcileDelete r (startPass ad)),
                               Some (snd (reconcileDelete r (startPass ad))))
            \<and> Phase (Status (obj (snd (reconcileDelete r (startPass ad))))) = PhaseUninstalling"
    if "\<not> timeIsZero (DeletionTimestamp (ObjectMeta ad))" "ContainsFinalizer ad finalizerName"
    using get that reconcileDelete_phase[of "startPass ad" r]
    by (simp add: Reconcile_def Let_def case_prod_beta startPass_def)
  show ?thesis using a b c by blast
qed

text \<open>
  The amended claim in the small world: the suspended record with its finalizer, the one
  without (its update accepted, then refused), and the one being deleted.
\<close>

theorem C1_suspended_noop_witness:
  "apiGet (exReconciler exHelm exSuspended) (''ns1'', ''pg'') = Inr exSuspended
   \<and> Suspend (Spec exSuspended)
   \<and> timeIsZero (DeletionTimestamp (ObjectMeta exSuspended))
   \<and> ContainsFinalizer exSuspended finalizerName
   \<and> Reconcile (exReconciler exHelm exSuspended) (''ns1'', ''pg'')
       = ((\<lparr>Requeue = False, RequeueAfter = 0\<rparr>, None), Some \<lparr>obj = exSuspended, calls = []\<rparr>)
   \<and> apiGet (exReconciler exHelm exSuspendedNew) (''ns1'', ''pg'') = Inr exSuspendedNew
   \<and> Suspend (Spec exSuspendedNew)
   \<and> fst (Reconcile (exReconciler exHelm exSuspendedNew) (''ns1'', ''pg''))
       = (\<lparr>Requeue = True, RequeueAfter = 0\<rparr>, None)
   \<and> fst (Reconcile (exReconcilerForbidden exHelm exSuspendedNew) (''ns1'', ''pg''))
       = (\<lparr>Requeue = False, RequeueAfter = 0\<rparr>,
          Some (StatusError ReasonOther ''appdeployments is forbidden''))
   \<and> Suspend (Spec exSuspendedDeleting)
   \<and> ContainsFinalizer exSuspendedDeleting finalizerName
   \<and> map_option (Phase \<circ> Status \<circ> obj)
        (snd (Reconcile (exReconciler exHelm exSuspendedDeleting) (''ns1'', ''pg'')))
       = Some PhaseUninstalling"
proof -
  have g: "apiGet (exReconciler exHelm exSuspended) (''ns1'', ''pg'') = Inr exSuspended"
          "apiGet (exReconciler exHelm exSuspendedNew) (''ns1'', ''pg'') = Inr exSuspendedNew"
          "apiGet (exReconcilerForbidden exHelm exSuspendedNew) (''ns1'', ''pg'') = Inr exSuspendedNew"
          "apiGet (exReconciler exHelm exSuspendedDeleting) (''ns1'', ''pg'') = Inr exSuspendedDeleting"
    by (simp_all add: ex_fields exReconcilerForbidden_def exReconciler_def)
  have s: "Suspend (Spec exSuspended)" "Suspend (Spec exSuspendedNew)"
          "Suspend (Spec exSuspendedDeleting)"
    by (simp_all add: ex_world_defs)
  have z: "timeIsZero (DeletionTimestamp (ObjectMeta exSuspended))"
          "timeIsZero (DeletionTimestamp (ObjectMeta exSuspendedNew))"
          "\<not> timeIsZero (DeletionTimestamp (ObjectMeta exSuspendedDeleting))"
    by (simp_all add: ex_world_defs timeIsZero_def)
  have f: "ContainsFinalizer exSuspended finalizerName" "\<not> ContainsFinalizer exSuspendedNew finalizerName"
          "ContainsFinalizer exSuspendedDeleting finalizerName"
    by (simp_all add: ContainsFinalizer_def ex_world_defs)
  have u: "apiUpdate (exReconcilerForbidden exHelm exSuspendedNew) a
             = Some (StatusError ReasonOther ''appdeployments is forbidden'')" for a
    by (simp add: exReconcilerForbidden_def)
  have one: "Reconcile (exReconciler exHelm exSuspended) (''ns1'', ''pg'')
       = ((\<lparr>Requeue = False, RequeueAfter = 0\<rparr>, None), Some \<lparr>obj = exSuspended, calls = []\<rparr>)"
    using C1_suspended_noop[OF g(1) s(1)] by (simp add: z f emptyResult_def startPass_def)
  have two: "fst (Reconcile (exReconciler exHelm exSuspendedNew) (''ns1'', ''pg''))
       = (\<lparr>Requeue = True, RequeueAfter = 0\<rparr>, None)"
    using C1_suspended_noop[OF g(2) s(2)] by (simp add: z f ex_fields)
  have three: "fst (Reconcile (exReconcilerForbidden exHelm exSuspendedNew) (''ns1'', ''pg''))
       = (\<lparr>Requeue = False, RequeueAfter = 0\<rparr>,
          Some (StatusError ReasonOther ''appdeployments is forbidden''))"
    using C1_suspended_noop[OF g(3) s(2)] by (simp add: z f u emptyResult_def)
  have four: "map_option (Phase \<circ> Status \<circ> obj)
        (snd (Reconcile (exReconciler exHelm exSuspendedDeleting) (''ns1'', ''pg'')))
       = Some PhaseUninstalling"
    using C1_suspended_noop[OF g(4) s(3)] by (simp add: z f)
  show ?thesis using g s z f one two three four by simp
qed

text \<open>
  C1 as stated fails on both kinds of record it names. A suspended record with the
  deletion timestamp set and the finalizer on it is uninstalled: its phase goes from empty
  to Uninstalling and \<open>Uninstall\<close> is called. A suspended record without the finalizer gets
  a requeue.
\<close>

theorem C1_suspended_not_noop_counterexample:
  "apiGet (exReconciler exHelmInstalled exSuspendedDeleting) (''ns1'', ''pg'') = Inr exSuspendedDeleting
   \<and> Suspend (Spec exSuspendedDeleting)
   \<and> Phase (Status exSuspendedDeleting) = []
   \<and> map_option (Phase \<circ> Status \<circ> obj)
        (snd (Reconcile (exReconciler exHelmInstalled exSuspendedDeleting) (''ns1'', ''pg'')))
       = Some PhaseUninstalling
   \<and> map_option (filter isUninstall \<circ> calls)
        (snd (Reconcile (exReconciler exHelmInstalled exSuspendedDeleting) (''ns1'', ''pg'')))
       = Some [CallUninstall ''pg'' ''ns1'']
   \<and> apiGet (exReconciler exHelm exSuspendedNew) (''ns1'', ''pg'') = Inr exSuspendedNew
   \<and> Suspend (Spec exSuspendedNew)
   \<and> Requeue (fst (fst (Reconcile (exReconciler exHelm exSuspendedNew) (''ns1'', ''pg''))))"
  by (simp add: Reconcile_def reconcileDelete_def ex_fields Let_def timeIsZero_def ContainsFinalizer_def
        resolveReleaseName_def updateStatusPhase_def statusUpdate_def logCall_def helm_defs
        RemoveFinalizer_def AddFinalizer_def ex_world_defs PhaseUninstalling_def)

section \<open>Deletion (C2)\<close>

text \<open>
  C2. A pass of \<open>reconcileDelete\<close> over a record that carries the finalizer (started as
  \<open>Reconcile\<close> starts it) calls \<open>Uninstall\<close> at most once. At its end the finalizer is gone
  from the object exactly when the status write went through and either \<open>ReleaseExists\<close>
  answered that the release is absent, or it answered that the release exists and
  \<open>Uninstall\<close> returned no error. When \<open>ReleaseExists\<close> fails, or \<open>Uninstall\<close> fails, the
  pass returns that error with \<open>RequeueAfter = requeueAfterFailure\<close>, the finalizer is still
  on the object and no update of the object was sent: the next pass tries again.
\<close>

theorem C2_delete_keeps_finalizer_until_cleanup:
  assumes fin: "ContainsFinalizer ad finalizerName"
  shows "length (filter isUninstall (calls (snd (reconcileDelete r (startPass ad))))) \<le> 1
    \<and> ((\<not> ContainsFinalizer (obj (snd (reconcileDelete r (startPass ad)))) finalizerName) =
        (fst (updateStatusPhase r PhaseUninstalling ''Uninstalling Helm release'' (startPass ad)) = None
         \<and> (ReleaseExists (HelmClient r) (resolveReleaseName ad) (Namespace (ObjectMeta ad)) = Inr False
            \<or> (ReleaseExists (HelmClient r) (resolveReleaseName ad) (Namespace (ObjectMeta ad)) = Inr True
                \<and> Uninstall (HelmClient r) (resolveReleaseName ad) (Namespace (ObjectMeta ad)) = None))))
    \<and> (fst (updateStatusPhase r PhaseUninstalling ''Uninstalling Helm release'' (startPass ad)) = None \<longrightarrow>
          (\<forall>err. ReleaseExists (HelmClient r) (resolveReleaseName ad) (Namespace (ObjectMeta ad)) = Inl err
                   \<or> (ReleaseExists (HelmClient r) (resolveReleaseName ad) (Namespace (ObjectMeta ad)) = Inr True
                      \<and> Uninstall (HelmClient r) (resolveReleaseName ad) (Namespace (ObjectMeta ad)) = Some err)
             \<longrightarrow> fst (reconcileDelete r (startPass ad))
                     = (\<lparr>Requeue = False, RequeueAfter = requeueAfterFailure\<rparr>, Some err)
                 \<and> ContainsFinalizer (obj (snd (reconcileDelete r (startPass ad)))) finalizerName
                 \<and> filter isUpdate (calls (snd (reconcileDelete r (startPass ad)))) = []))"
proof -
  let ?s = "startPass ad"
  let ?u = "updateStatusPhase r PhaseUninstalling ''Uninstalling Helm release'' ?s"
  let ?rn = "resolveReleaseName ad"
  let ?ns = "Namespace (ObjectMeta ad)"
  let ?gone = "RemoveFinalizer (obj (snd ?u)) finalizerName"
  have f1: "ContainsFinalizer (obj (snd ?u)) finalizerName"
    using fin by (simp add: ContainsFinalizer_phase startPass_simps)
  have c1: "calls (snd ?u) = [CallStatusUpdate (obj (snd ?u))]"
    by (simp add: updateStatusPhase_obj(4) startPass_simps)
  show ?thesis
  proof (cases "fst ?u")
    case (Some e)
    then have "reconcileDelete r ?s = ((emptyResult, Some e), snd ?u)"
      using fin by (simp add: reconcileDelete_def startPass_simps Let_def case_prod_beta)
    then show ?thesis using f1 c1 Some by simp
  next
    case None
    show ?thesis
    proof (cases "ReleaseExists (HelmClient r) ?rn ?ns")
      case (Inl err)
      then have "reconcileDelete r ?s =
          ((\<lparr>Requeue = False, RequeueAfter = requeueAfterFailure\<rparr>, Some err),
           logCall (CallReleaseExists ?rn ?ns) (snd ?u))"
        using fin None by (simp add: reconcileDelete_def startPass_simps Let_def case_prod_beta)
      then show ?thesis using f1 c1 Inl by (simp add: logCall_def)
    next
      case (Inr exists)
      show ?thesis
      proof (cases exists)
        case False
        then have "reconcileDelete r ?s =
          ((emptyResult, apiUpdate r ?gone),
           logCall (CallUpdate ?gone)
             ((logCall (CallReleaseExists ?rn ?ns) (snd ?u))\<lparr>obj := ?gone\<rparr>))"
          using fin None Inr
          by (simp add: reconcileDelete_def startPass_simps Let_def case_prod_beta logCall_def
                split: option.splits)
        then show ?thesis
          using c1 Inr False None by (simp add: logCall_def ContainsFinalizer_Remove)
      next
        case True
        show ?thesis
        proof (cases "Uninstall (HelmClient r) ?rn ?ns")
          case (Some err)
          then have "reconcileDelete r ?s =
            ((\<lparr>Requeue = False, RequeueAfter = requeueAfterFailure\<rparr>, Some err),
             logCall (CallUninstall ?rn ?ns) (logCall (CallReleaseExists ?rn ?ns) (snd ?u)))"
            using fin None Inr True
            by (simp add: reconcileDelete_def startPass_simps Let_def case_prod_beta)
          then show ?thesis using f1 c1 Inr True Some by (simp add: logCall_def)
        next
          case unOk: None
          then have "reconcileDelete r ?s =
            ((emptyResult, apiUpdate r ?gone),
             logCall (CallUpdate ?gone)
               ((logCall (CallUninstall ?rn ?ns) (logCall (CallReleaseExists ?rn ?ns) (snd ?u)))
                  \<lparr>obj := ?gone\<rparr>))"
            using fin None Inr True
            by (simp add: reconcileDelete_def startPass_simps Let_def case_prod_beta logCall_def
                  split: option.splits)
          then show ?thesis
            using c1 Inr True unOk None by (simp add: logCall_def ContainsFinalizer_Remove)
        qed
      qed
    qed
  qed
qed

text \<open>
  The claim in the small world: with the release installed and an uninstall action that
  fails, the pass returns that error with the failure interval and keeps the finalizer;
  with an uninstall action that succeeds, the finalizer is removed.
\<close>

theorem C2_delete_keeps_finalizer_until_cleanup_witness:
  "ContainsFinalizer exDeleting finalizerName
   \<and> length (filter isUninstall (calls (snd (reconcileDelete (exReconciler exHelmStuck exDeleting)
                                                (startPass exDeleting))))) \<le> 1
   \<and> fst (reconcileDelete (exReconciler exHelmStuck exDeleting) (startPass exDeleting))
       = (\<lparr>Requeue = False, RequeueAfter = 30\<rparr>,
          Some (Wrap ''failed to uninstall release: '' (Errorf ''timed out'')))
   \<and> ContainsFinalizer (obj (snd (reconcileDelete (exReconciler exHelmStuck exDeleting)
                                     (startPass exDeleting)))) finalizerName
   \<and> Uninstall exHelmInstalled ''pg'' ''ns1'' = None
   \<and> \<not> ContainsFinalizer (obj (snd (reconcileDelete (exReconciler exHelmInstalled exDeleting)
                                       (startPass exDeleting)))) finalizerName"
proof -
  have fin: "ContainsFinalizer exDeleting finalizerName"
    by (simp add: ContainsFinalizer_def ex_world_defs)
  have nm: "resolveReleaseName exDeleting = ''pg''" "Namespace (ObjectMeta exDeleting) = ''ns1''"
    by (simp_all add: resolveReleaseName_def ex_world_defs)
  have w: "fst (updateStatusPhase (exReconciler h exDeleting) PhaseUninstalling
                  ''Uninstalling Helm release'' (startPass exDeleting)) = None" for h
    by (simp add: updateStatusPhase_obj(5)) (simp add: exReconciler_def)
  have hc: "HelmClient (exReconciler h exDeleting) = h" for h
    by (simp add: exReconciler_def)
  have stuck: "ReleaseExists exHelmStuck ''pg'' ''ns1'' = Inr True"
    "Uninstall exHelmStuck ''pg'' ''ns1''
       = Some (Wrap ''failed to uninstall release: '' (Errorf ''timed out''))"
    by (simp_all add: helm_defs ex_world_defs)
  have inst: "ReleaseExists exHelmInstalled ''pg'' ''ns1'' = Inr True"
    "Uninstall exHelmInstalled ''pg'' ''ns1'' = None"
    by (simp_all add: helm_defs ex_world_defs)
  have a: "length (filter isUninstall (calls (snd (reconcileDelete (exReconciler exHelmStuck exDeleting)
                                                (startPass exDeleting))))) \<le> 1
     \<and> fst (reconcileDelete (exReconciler exHelmStuck exDeleting) (startPass exDeleting))
       = (\<lparr>Requeue = False, RequeueAfter = 30\<rparr>,
          Some (Wrap ''failed to uninstall release: '' (Errorf ''timed out'')))
     \<and> ContainsFinalizer (obj (snd (reconcileDelete (exReconciler exHelmStuck exDeleting)
                                     (startPass exDeleting)))) finalizerName"
    using C2_delete_keeps_finalizer_until_cleanup[OF fin, of "exReconciler exHelmStuck exDeleting"]
    by (simp add: w hc nm stuck requeueAfterFailure_def)
  have b: "\<not> ContainsFinalizer (obj (snd (reconcileDelete (exReconciler exHelmInstalled exDeleting)
                                       (startPass exDeleting)))) finalizerName"
    using C2_delete_keeps_finalizer_until_cleanup[OF fin, of "exReconciler exHelmInstalled exDeleting"]
    by (simp add: w hc nm inst)
  show ?thesis using fin a b inst(2) by simp
qed

section \<open>Upgrade decision (C3)\<close>

text \<open>
  C3, as amended. \<open>needsUpgrade\<close> answers True exactly when the hash stored in the status
  differs from the hash of the merged values, or \<open>Spec.ChartVersion\<close> is non-empty and
  differs, as a string, from the chart version of the release; with an empty
  \<open>Spec.ChartVersion\<close> only the hash decides. For a record that passes the chart check,
  whose values merge to \<open>values\<close> and whose release exists, the pass of \<open>reconcileHelm\<close>
  sends the status write of phase Upgrading exactly when \<open>needsUpgrade\<close> says so; it never
  calls \<open>Install\<close>; and it calls \<open>Upgrade\<close>, once, exactly when \<open>needsUpgrade\<close> says so and
  that status write went through. When \<open>needsUpgrade\<close> says so and the write is refused,
  the pass returns the error of the write and makes no \<open>Upgrade\<close> call. So when neither
  condition holds, no install and no upgrade call is made.
\<close>

theorem C3_upgrade_iff_changed:
  assumes acc: "chartAccepted r ad"
    and vals: "getValues r ad = Inr values"
    and present: "GetRelease (HelmClient r) (resolveReleaseName ad) (Namespace (ObjectMeta ad)) = Inr (Some rel)"
  shows "needsUpgrade ad rel (hashValues (lib r) values)
           = (LastAppliedValuesHash (Status ad) \<noteq> hashValues (lib r) values
              \<or> (ChartVersion (Spec ad) \<noteq> [] \<and> ChartVersion (Spec ad) \<noteq> ri_ChartVersion rel))
    \<and> (ChartVersion (Spec ad) = [] \<longrightarrow>
          needsUpgrade ad rel (hashValues (lib r) values)
            = (LastAppliedValuesHash (Status ad) \<noteq> hashValues (lib r) values))
    \<and> (filter (setsPhase PhaseUpgrading) (calls (snd (reconcileHelm r (startPass ad)))) \<noteq> [])
          = needsUpgrade ad rel (hashValues (lib r) values)
    \<and> filter isInstall (calls (snd (reconcileHelm r (startPass ad)))) = []
    \<and> filter isUpgrade (calls (snd (reconcileHelm r (startPass ad))))
          = (if needsUpgrade ad rel (hashValues (lib r) values)
                \<and> apiStatusUpdate r (obj (snd (updateStatusPhase r PhaseUpgrading
                       ''Upgrading Helm chart'' (startPass ad)))) = None
             then [CallUpgrade (resolveReleaseName ad) (AppName (Spec ad)) (Namespace (ObjectMeta ad))
                     values (ChartVersion (Spec ad))]
             else [])
    \<and> (\<forall>err. needsUpgrade ad rel (hashValues (lib r) values)
                \<and> apiStatusUpdate r (obj (snd (updateStatusPhase r PhaseUpgrading
                       ''Upgrading Helm chart'' (startPass ad)))) = Some err
           \<longrightarrow> fst (reconcileHelm r (startPass ad)) = (emptyResult, Some err))"
proof -
  let ?s0 = "startPass ad"
  let ?rn = "resolveReleaseName ad"
  let ?ns = "Namespace (ObjectMeta ad)"
  let ?h = "hashValues (lib r) values"
  let ?s1 = "logCall (CallGetRelease ?rn ?ns) ?s0"
  let ?u = "updateStatusPhase r PhaseUpgrading ''Upgrading Helm chart'' ?s1"
  let ?s3 = "logCall (CallUpgrade ?rn (AppName (Spec ad)) ?ns values (ChartVersion (Spec ad))) (snd ?u)"
  have run: "reconcileHelm r ?s0 =
     (if needsUpgrade ad rel ?h then
        (case fst ?u of
           Some err \<Rightarrow> ((emptyResult, Some err), snd ?u)
         | None \<Rightarrow>
            (case Upgrade (HelmClient r) ?rn (AppName (Spec ad)) ?ns values (ChartVersion (Spec ad)) of
               Inl err \<Rightarrow> updateStatusFailed r (''Failed to upgrade: '' @ errText err) ?s3
             | Inr releaseInfo \<Rightarrow> updateStatusDeployed r releaseInfo ?h ?s3))
      else updateStatusDeployed r rel ?h ?s1)"
    using acc vals present
    by (subst reconcileHelm_present[of r "?s0" "values" rel])
       (simp_all add: startPass_simps Let_def case_prod_beta split: option.splits)
  have c1: "calls ?s1 = [CallGetRelease ?rn ?ns]"
    by (simp add: logCall_simps startPass_simps)
  have cu: "calls (snd ?u) = [CallGetRelease ?rn ?ns, CallStatusUpdate (obj (snd ?u))]"
    by (simp add: updateStatusPhase_obj(4) c1)
  have ph: "Phase (Status (obj (snd ?u))) = PhaseUpgrading"
    by (rule updateStatusPhase_obj(1))
  have fu: "fst ?u = apiStatusUpdate r (obj (snd (updateStatusPhase r PhaseUpgrading
                       ''Upgrading Helm chart'' ?s0)))"
    by (simp add: updateStatusPhase_obj(5) updateStatusPhase_obj_calls)
  have nu: "needsUpgrade ad rel ?h
           = (LastAppliedValuesHash (Status ad) \<noteq> ?h
              \<or> (ChartVersion (Spec ad) \<noteq> [] \<and> ChartVersion (Spec ad) \<noteq> ri_ChartVersion rel))"
    by (simp add: needsUpgrade_def)
  have trace: "(filter (setsPhase PhaseUpgrading) (calls (snd (reconcileHelm r ?s0))) \<noteq> [])
          = needsUpgrade ad rel ?h
    \<and> filter isInstall (calls (snd (reconcileHelm r ?s0))) = []
    \<and> filter isUpgrade (calls (snd (reconcileHelm r ?s0)))
          = (if needsUpgrade ad rel ?h \<and> fst ?u = None
             then [CallUpgrade ?rn (AppName (Spec ad)) ?ns values (ChartVersion (Spec ad))]
             else [])"
  proof (cases "needsUpgrade ad rel ?h")
    case False
    then show ?thesis
      by (simp add: run updateStatusDeployed_obj c1 phase_distinct)
  next
    case True
    show ?thesis
    proof (cases "fst ?u")
      case (Some e)
      then show ?thesis using True ph by (simp add: run cu)
    next
      case None
      have c3: "calls ?s3 = [CallGetRelease ?rn ?ns, CallStatusUpdate (obj (snd ?u)),
                  CallUpgrade ?rn (AppName (Spec ad)) ?ns values (ChartVersion (Spec ad))]"
        by (simp add: logCall_simps cu)
      show ?thesis
      proof (cases "Upgrade (HelmClient r) ?rn (AppName (Spec ad)) ?ns values (ChartVersion (Spec ad))")
        case (Inl err)
        then show ?thesis using True None ph
          by (simp add: run updateStatusFailed_obj c3 phase_distinct)
      next
        case (Inr info)
        then show ?thesis using True None ph
          by (simp add: run updateStatusDeployed_obj c3 phase_distinct)
      qed
    qed
  qed
  have refused: "fst (reconcileHelm r ?s0) = (emptyResult, Some err)"
    if "needsUpgrade ad rel ?h" "fst ?u = Some err" for err
    using that by (simp add: run)
  show ?thesis using nu trace refused by (simp add: fu)
qed

text \<open>
  The claim in the small world, with the release installed: for the record as deployed
  (same hash, no version asked for) no call is made; for the record that asks for chart
  version 16.0.0 while 15.5.0 is deployed, one \<open>Upgrade\<close> call, and with every status write
  refused, the error of the write.
\<close>

theorem C3_upgrade_iff_changed_witness:
  "chartAccepted (exReconciler exHelmInstalled exDeployed) exDeployed
   \<and> getValues (exReconciler exHelmInstalled exDeployed) exDeployed = Inr exMerged
   \<and> GetRelease exHelmInstalled ''pg'' ''ns1'' = Inr (Some (releaseToInfo (exRelease ''ns1'' ''pg'' 1)))
   \<and> \<not> needsUpgrade exDeployed (releaseToInfo (exRelease ''ns1'' ''pg'' 1)) (hashValues exLib exMerged)
   \<and> filter isInstall (calls (snd (reconcileHelm (exReconciler exHelmInstalled exDeployed) (startPass exDeployed)))) = []
   \<and> filter isUpgrade (calls (snd (reconcileHelm (exReconciler exHelmInstalled exDeployed) (startPass exDeployed)))) = []
   \<and> needsUpgrade exPinned (releaseToInfo (exRelease ''ns1'' ''pg'' 1)) (hashValues exLib exMerged)
   \<and> filter isUpgrade (calls (snd (reconcileHelm (exReconciler exHelmInstalled exPinned) (startPass exPinned))))
        = [CallUpgrade ''pg'' ''postgresql'' ''ns1'' exMerged ''16.0.0'']
   \<and> fst (reconcileHelm (exReconcilerConflict exHelmInstalled exPinned) (startPass exPinned))
        = (emptyResult, Some (StatusError ReasonOther ''the object has been modified''))"
proof -
  let ?ri = "releaseToInfo (exRelease ''ns1'' ''pg'' 1)"
  have acc: "chartAccepted (exReconciler exHelmInstalled st) exDeployed"
            "chartAccepted (exReconciler exHelmInstalled st) exPinned" for st
    by (simp_all add: ex_chartAccepted ex_names)
  have vals: "getValues (exReconciler exHelmInstalled st) exDeployed = Inr exMerged"
             "getValues (exReconciler exHelmInstalled st) exPinned = Inr exMerged" for st
    by (rule ex_getValues(1); simp add: ex_world_defs)+
  have present:
    "GetRelease (HelmClient (exReconciler exHelmInstalled st)) (resolveReleaseName exDeployed)
        (Namespace (ObjectMeta exDeployed)) = Inr (Some ?ri)"
    "GetRelease (HelmClient (exReconciler exHelmInstalled st)) (resolveReleaseName exPinned)
        (Namespace (ObjectMeta exPinned)) = Inr (Some ?ri)" for st
    by (simp_all add: ex_fields ex_names ex_helm)
  have st: "LastAppliedValuesHash (Status exDeployed) = hashValues exLib exMerged"
    "ri_ChartVersion ?ri = ''15.5.0''"
    by (simp_all add: ex_world_defs releaseToInfo_def)
  have a: "\<not> needsUpgrade exDeployed ?ri (hashValues exLib exMerged)
     \<and> filter isInstall (calls (snd (reconcileHelm (exReconciler exHelmInstalled exDeployed) (startPass exDeployed)))) = []
     \<and> filter isUpgrade (calls (snd (reconcileHelm (exReconciler exHelmInstalled exDeployed) (startPass exDeployed)))) = []"
    using C3_upgrade_iff_changed[OF acc(1) vals(1) present(1), of exDeployed]
    by (simp add: ex_fields ex_names st)
  have b: "needsUpgrade exPinned ?ri (hashValues exLib exMerged)
     \<and> filter isUpgrade (calls (snd (reconcileHelm (exReconciler exHelmInstalled exPinned) (startPass exPinned))))
        = [CallUpgrade ''pg'' ''postgresql'' ''ns1'' exMerged ''16.0.0'']"
    using C3_upgrade_iff_changed[OF acc(2) vals(2) present(2), of exPinned]
    by (simp add: ex_fields ex_names st)
  have acc': "chartAccepted (exReconcilerConflict exHelmInstalled exPinned) exPinned"
    by (simp add: ex_conflict_same ex_chartAccepted ex_names)
  have vals': "getValues (exReconcilerConflict exHelmInstalled exPinned) exPinned = Inr exMerged"
    by (rule ex_getValues(2)) (simp_all add: ex_world_defs)
  have present': "GetRelease (HelmClient (exReconcilerConflict exHelmInstalled exPinned))
        (resolveReleaseName exPinned) (Namespace (ObjectMeta exPinned)) = Inr (Some ?ri)"
    by (simp add: ex_fields ex_names ex_helm)
  have c: "fst (reconcileHelm (exReconcilerConflict exHelmInstalled exPinned) (startPass exPinned))
        = (emptyResult, Some (StatusError ReasonOther ''the object has been modified''))"
    using C3_upgrade_iff_changed[OF acc' vals' present'] b
    by (simp add: ex_fields ex_names st)
  show ?thesis using a b c acc vals by (simp add: ex_helm)
qed

text \<open>
  C3 as stated fails where the API server refuses the status write of phase Upgrading:
  the release exists, \<open>Spec.ChartVersion\<close> is set and differs from the deployed chart
  version, so the criterion holds, yet \<open>reconcileHelm\<close> returns the error of the write and
  makes no \<open>Upgrade\<close> call.
\<close>

theorem C3_upgrade_skipped_counterexample:
  "chartAccepted (exReconcilerConflict exHelmInstalled exPinned) exPinned
   \<and> getValues (exReconcilerConflict exHelmInstalled exPinned) exPinned = Inr exMerged
   \<and> GetRelease (HelmClient (exReconcilerConflict exHelmInstalled exPinned)) ''pg'' ''ns1''
        = Inr (Some (releaseToInfo (exRelease ''ns1'' ''pg'' 1)))
   \<and> ChartVersion (Spec exPinned) = ''16.0.0''
   \<and> ri_ChartVersion (releaseToInfo (exRelease ''ns1'' ''pg'' 1)) = ''15.5.0''
   \<and> needsUpgrade exPinned (releaseToInfo (exRelease ''ns1'' ''pg'' 1)) (hashValues exLib exMerged)
   \<and> filter isUpgrade (calls (snd (reconcileHelm (exReconcilerConflict exHelmInstalled exPinned)
                                      (startPass exPinned)))) = []
   \<and> fst (reconcileHelm (exReconcilerConflict exHelmInstalled exPinned) (startPass exPinned))
        = (emptyResult, Some (StatusError ReasonOther ''the object has been modified''))"
proof -
  let ?r = "exReconcilerConflict exHelmInstalled exPinned"
  let ?ri = "releaseToInfo (exRelease ''ns1'' ''pg'' 1)"
  let ?s1 = "logCall (CallGetRelease ''pg'' ''ns1'') (startPass exPinned)"
  let ?u = "updateStatusPhase ?r PhaseUpgrading ''Upgrading Helm chart'' ?s1"
  have acc: "chartAccepted ?r exPinned"
    by (simp add: ex_conflict_same ex_chartAccepted ex_names)
  have vals: "getValues ?r exPinned = Inr exMerged"
    by (rule ex_getValues(2)) (simp_all add: ex_world_defs)
  have present: "GetRelease (HelmClient ?r) ''pg'' ''ns1'' = Inr (Some ?ri)"
    by (simp add: ex_fields ex_helm)
  have ver: "ChartVersion (Spec exPinned) = ''16.0.0''" "ri_ChartVersion ?ri = ''15.5.0''"
    by (simp_all add: ex_names releaseToInfo_def exRelease_def exChart_def)
  have nu: "needsUpgrade exPinned ?ri (hashValues exLib exMerged)"
    by (simp add: needsUpgrade_def ver)
  have fu: "fst ?u = Some (StatusError ReasonOther ''the object has been modified'')"
    by (simp add: updateStatusPhase_obj(5) ex_fields)
  have run: "reconcileHelm ?r (startPass exPinned)
      = ((emptyResult, Some (StatusError ReasonOther ''the object has been modified'')), snd ?u)"
    using acc vals present nu
    by (subst reconcileHelm_present[of ?r "startPass exPinned" exMerged ?ri])
       (simp_all add: startPass_simps ex_names ex_fields Let_def case_prod_beta fu)
  show ?thesis
    using acc vals present ver nu
    by (simp add: run updateStatusPhase_obj logCall_simps startPass_simps)
qed

section \<open>Merged values (C4)\<close>



section \<open>First install (C5)\<close>

text \<open>
  C5, as amended. Take a record that passes the chart check, whose values merge to
  \<open>values\<close>, and for which \<open>GetRelease\<close> reports that no release exists. If the status
  write that records phase Installing goes through, the pass of \<open>reconcileHelm\<close> makes
  exactly one \<open>Install\<close> call (release name, chart, namespace, merged values, requested
  version), no \<open>Upgrade\<close> call, and sends no status write with phase Upgrading; if
  \<open>Install\<close> succeeds the object ends with phase Deployed, the release's name, revision and
  chart version, the hash of the merged values, failure count 0 and a Ready condition with
  status True; if \<open>Install\<close> fails it ends with phase Failed; and the last call of the pass
  is the status write of the object as it ends. If the status write of phase Installing
  is refused, the pass returns the error of the write, makes no \<open>Install\<close> and no \<open>Upgrade\<close>
  call, and leaves the object in phase Installing.
\<close>

theorem C5_first_install:
  assumes acc: "chartAccepted r ad"
    and vals: "getValues r ad = Inr values"
    and absent: "GetRelease (HelmClient r) (resolveReleaseName ad) (Namespace (ObjectMeta ad)) = Inr None"
  shows "(apiStatusUpdate r
            (obj (snd (updateStatusPhase r PhaseInstalling ''Installing Helm chart'' (startPass ad)))) = None
          \<longrightarrow>
           filter isInstall (calls (snd (reconcileHelm r (startPass ad))))
             = [CallInstall (resolveReleaseName ad) (AppName (Spec ad)) (Namespace (ObjectMeta ad))
                  values (ChartVersion (Spec ad))]
           \<and> filter isUpgrade (calls (snd (reconcileHelm r (startPass ad)))) = []
           \<and> filter (setsPhase PhaseUpgrading) (calls (snd (reconcileHelm r (startPass ad)))) = []
           \<and> last (calls (snd (reconcileHelm r (startPass ad))))
                 = CallStatusUpdate (obj (snd (reconcileHelm r (startPass ad))))
           \<and> (case Install (HelmClient r) (resolveReleaseName ad) (AppName (Spec ad))
                     (Namespace (ObjectMeta ad)) values (ChartVersion (Spec ad)) of
                 Inr info \<Rightarrow>
                   (let st = Status (obj (snd (reconcileHelm r (startPass ad))))
                    in Phase st = PhaseDeployed
                       \<and> HelmReleaseName st = ri_Name info
                       \<and> HelmReleaseRevision st = ri_Revision info
                       \<and> DeployedChartVersion st = ri_ChartVersion info
                       \<and> LastAppliedValuesHash st = hashValues (lib r) values
                       \<and> FailureCount st = 0
                       \<and> IsStatusConditionTrue (Conditions st) ConditionTypeReady)
               | Inl err \<Rightarrow>
                   Phase (Status (obj (snd (reconcileHelm r (startPass ad))))) = PhaseFailed))
    \<and> (\<forall>err. apiStatusUpdate r
            (obj (snd (updateStatusPhase r PhaseInstalling ''Installing Helm chart'' (startPass ad))))
              = Some err
          \<longrightarrow>
           fst (reconcileHelm r (startPass ad)) = (emptyResult, Some err)
           \<and> filter isInstall (calls (snd (reconcileHelm r (startPass ad)))) = []
           \<and> filter isUpgrade (calls (snd (reconcileHelm r (startPass ad)))) = []
           \<and> Phase (Status (obj (snd (reconcileHelm r (startPass ad))))) = PhaseInstalling)"
proof -
  let ?s0 = "startPass ad"
  let ?s1 = "logCall (CallGetRelease (resolveReleaseName ad) (Namespace (ObjectMeta ad))) ?s0"
  let ?u = "updateStatusPhase r PhaseInstalling ''Installing Helm chart'' ?s1"
  let ?s3 = "logCall (CallInstall (resolveReleaseName ad) (AppName (Spec ad)) (Namespace (ObjectMeta ad))
                values (ChartVersion (Spec ad))) (snd ?u)"
  have same: "obj (snd ?u) = obj (snd (updateStatusPhase r PhaseInstalling ''Installing Helm chart'' ?s0))"
    by (simp add: updateStatusPhase_def Let_def statusUpdate_def logCall_def)
  have calls3: "calls ?s3 = [CallGetRelease (resolveReleaseName ad) (Namespace (ObjectMeta ad)),
                   CallStatusUpdate (obj (snd ?u)),
                   CallInstall (resolveReleaseName ad) (AppName (Spec ad)) (Namespace (ObjectMeta ad))
                     values (ChartVersion (Spec ad))]"
    by (simp add: logCall_def updateStatusPhase_obj(4) startPass_simps)
  have ph: "Phase (Status (obj (snd ?u))) = PhaseInstalling"
    by (rule updateStatusPhase_obj(1))
  have good: "filter isInstall (calls (snd (reconcileHelm r (startPass ad))))
             = [CallInstall (resolveReleaseName ad) (AppName (Spec ad)) (Namespace (ObjectMeta ad))
                  values (ChartVersion (Spec ad))]
           \<and> filter isUpgrade (calls (snd (reconcileHelm r (startPass ad)))) = []
           \<and> filter (setsPhase PhaseUpgrading) (calls (snd (reconcileHelm r (startPass ad)))) = []
           \<and> last (calls (snd (reconcileHelm r (startPass ad))))
                 = CallStatusUpdate (obj (snd (reconcileHelm r (startPass ad))))
           \<and> (case Install (HelmClient r) (resolveReleaseName ad) (AppName (Spec ad))
                     (Namespace (ObjectMeta ad)) values (ChartVersion (Spec ad)) of
                 Inr info \<Rightarrow>
                   (let st = Status (obj (snd (reconcileHelm r (startPass ad))))
                    in Phase st = PhaseDeployed
                       \<and> HelmReleaseName st = ri_Name info
                       \<and> HelmReleaseRevision st = ri_Revision info
                       \<and> DeployedChartVersion st = ri_ChartVersion info
                       \<and> LastAppliedValuesHash st = hashValues (lib r) values
                       \<and> FailureCount st = 0
                       \<and> IsStatusConditionTrue (Conditions st) ConditionTypeReady)
               | Inl err \<Rightarrow>
                   Phase (Status (obj (snd (reconcileHelm r (startPass ad))))) = PhaseFailed)"
    if written: "apiStatusUpdate r
        (obj (snd (updateStatusPhase r PhaseInstalling ''Installing Helm chart'' (startPass ad)))) = None"
  proof -
    have ok: "fst ?u = None"
      using written by (simp add: updateStatusPhase_obj(5) same)
    have run: "reconcileHelm r ?s0 =
        (case Install (HelmClient r) (resolveReleaseName ad) (AppName (Spec ad))
                     (Namespace (ObjectMeta ad)) values (ChartVersion (Spec ad)) of
           Inl err \<Rightarrow> updateStatusFailed r (''Failed to install: '' @ errText err) ?s3
         | Inr releaseInfo \<Rightarrow> updateStatusDeployed r releaseInfo (hashValues (lib r) values) ?s3)"
      using acc vals absent
      by (subst reconcileHelm_absent[of r "?s0" "values"]) (simp_all add: startPass_simps Let_def case_prod_beta ok)
    show ?thesis
    proof (cases "Install (HelmClient r) (resolveReleaseName ad) (AppName (Spec ad))
                     (Namespace (ObjectMeta ad)) values (ChartVersion (Spec ad))")
      case (Inl err)
      then show ?thesis
        using ph
        by (simp add: run updateStatusFailed_obj calls3 phase_distinct)
    next
      case (Inr info)
      then show ?thesis
        using ph
        by (simp add: run updateStatusDeployed_obj updateStatusDeployed_ready calls3 Let_def phase_distinct)
    qed
  qed
  have bad: "fst (reconcileHelm r (startPass ad)) = (emptyResult, Some err)
           \<and> filter isInstall (calls (snd (reconcileHelm r (startPass ad)))) = []
           \<and> filter isUpgrade (calls (snd (reconcileHelm r (startPass ad)))) = []
           \<and> Phase (Status (obj (snd (reconcileHelm r (startPass ad))))) = PhaseInstalling"
    if refused: "apiStatusUpdate r
        (obj (snd (updateStatusPhase r PhaseInstalling ''Installing Helm chart'' (startPass ad))))
          = Some err" for err
  proof -
    have fu: "fst ?u = Some err"
      using refused by (simp add: updateStatusPhase_obj(5) same)
    have run: "reconcileHelm r ?s0 = ((emptyResult, Some err), snd ?u)"
      using acc vals absent
      by (subst reconcileHelm_absent[of r "?s0" "values"])
         (simp_all add: startPass_simps Let_def case_prod_beta fu)
    show ?thesis
      by (simp add: run updateStatusPhase_obj logCall_simps startPass_simps)
  qed
  show ?thesis
    apply (intro conjI)
     apply (rule impI, erule good)
    apply (intro allI impI, erule bad)
    done
qed

text \<open>
  The amended claim in the small world: nothing installed, every write accepted; and
  nothing installed, every status write refused.
\<close>

theorem C5_first_install_witness:
  "chartAccepted (exReconciler exHelm exAd) exAd
   \<and> getValues (exReconciler exHelm exAd) exAd = Inr exMerged
   \<and> GetRelease exHelm ''pg'' ''ns1'' = Inr None
   \<and> filter isInstall (calls (snd (reconcileHelm (exReconciler exHelm exAd) (startPass exAd))))
        = [CallInstall ''pg'' ''postgresql'' ''ns1'' exMerged []]
   \<and> filter isUpgrade (calls (snd (reconcileHelm (exReconciler exHelm exAd) (startPass exAd)))) = []
   \<and> Phase (Status (obj (snd (reconcileHelm (exReconciler exHelm exAd) (startPass exAd))))) = PhaseDeployed
   \<and> HelmReleaseRevision (Status (obj (snd (reconcileHelm (exReconciler exHelm exAd) (startPass exAd))))) = 1
   \<and> fst (reconcileHelm (exReconcilerConflict exHelm exAd) (startPass exAd))
        = (emptyResult, Some (StatusError ReasonOther ''the object has been modified''))
   \<and> filter isInstall (calls (snd (reconcileHelm (exReconcilerConflict exHelm exAd) (startPass exAd)))) = []"
proof -
  have acc: "chartAccepted (exReconciler exHelm exAd) exAd"
    by (simp add: ex_chartAccepted ex_names)
  have vals: "getValues (exReconciler exHelm exAd) exAd = Inr exMerged"
    by (rule ex_getValues(1)) (simp_all add: ex_world_defs)
  have absent: "GetRelease (HelmClient (exReconciler exHelm exAd)) (resolveReleaseName exAd)
                  (Namespace (ObjectMeta exAd)) = Inr None"
    by (simp add: ex_fields ex_names ex_helm)
  have written: "apiStatusUpdate (exReconciler exHelm exAd)
        (obj (snd (updateStatusPhase (exReconciler exHelm exAd) PhaseInstalling
                     ''Installing Helm chart'' (startPass exAd)))) = None"
    by (simp add: ex_fields)
  have a: "filter isInstall (calls (snd (reconcileHelm (exReconciler exHelm exAd) (startPass exAd))))
        = [CallInstall ''pg'' ''postgresql'' ''ns1'' exMerged []]
   \<and> filter isUpgrade (calls (snd (reconcileHelm (exReconciler exHelm exAd) (startPass exAd)))) = []
   \<and> Phase (Status (obj (snd (reconcileHelm (exReconciler exHelm exAd) (startPass exAd))))) = PhaseDeployed
   \<and> HelmReleaseRevision (Status (obj (snd (reconcileHelm (exReconciler exHelm exAd) (startPass exAd))))) = 1"
    using C5_first_install[OF acc vals absent] written
    by (simp add: ex_fields ex_names ex_helm ex_install Let_def releaseToInfo_def exRelease_def)
  have acc': "chartAccepted (exReconcilerConflict exHelm exAd) exAd"
    by (simp add: ex_conflict_same ex_chartAccepted ex_names)
  have vals': "getValues (exReconcilerConflict exHelm exAd) exAd = Inr exMerged"
    by (rule ex_getValues(2)) (simp_all add: ex_world_defs)
  have absent': "GetRelease (HelmClient (exReconcilerConflict exHelm exAd)) (resolveReleaseName exAd)
                  (Namespace (ObjectMeta exAd)) = Inr None"
    by (simp add: ex_fields ex_names ex_helm)
  have b: "fst (reconcileHelm (exReconcilerConflict exHelm exAd) (startPass exAd))
        = (emptyResult, Some (StatusError ReasonOther ''the object has been modified''))
   \<and> filter isInstall (calls (snd (reconcileHelm (exReconcilerConflict exHelm exAd) (startPass exAd)))) = []"
    using C5_first_install[OF acc' vals' absent']
    by (simp add: ex_fields)
  show ?thesis using a b acc vals by (simp add: ex_helm)
qed

text \<open>
  C5 as stated fails where the API server refuses the status write of phase Installing
  (another writer changed the object): \<open>GetRelease\<close> reports the release absent, yet
  \<open>reconcileHelm\<close> returns the error of the write at once, makes no \<open>Install\<close> call and
  leaves the object in phase Installing, neither Deployed nor Failed.
\<close>

theorem C5_install_skipped_counterexample:
  "chartAccepted (exReconcilerConflict exHelm exAd) exAd
   \<and> getValues (exReconcilerConflict exHelm exAd) exAd = Inr exMerged
   \<and> GetRelease (HelmClient (exReconcilerConflict exHelm exAd)) ''pg'' ''ns1'' = Inr None
   \<and> filter isInstall (calls (snd (reconcileHelm (exReconcilerConflict exHelm exAd) (startPass exAd)))) = []
   \<and> Phase (Status (obj (snd (reconcileHelm (exReconcilerConflict exHelm exAd) (startPass exAd)))))
        = PhaseInstalling
   \<and> PhaseInstalling \<noteq> PhaseDeployed \<and> PhaseInstalling \<noteq> PhaseFailed"
proof -
  let ?r = "exReconcilerConflict exHelm exAd"
  let ?s1 = "logCall (CallGetRelease ''pg'' ''ns1'') (startPass exAd)"
  let ?u = "updateStatusPhase ?r PhaseInstalling ''Installing Helm chart'' ?s1"
  have acc: "chartAccepted ?r exAd"
    by (simp add: ex_conflict_same ex_chartAccepted ex_names)
  have vals: "getValues ?r exAd = Inr exMerged"
    by (rule ex_getValues(2)) (simp_all add: ex_world_defs)
  have absent: "GetRelease (HelmClient ?r) ''pg'' ''ns1'' = Inr None"
    by (simp add: ex_fields ex_helm)
  have fu: "fst ?u = Some (StatusError ReasonOther ''the object has been modified'')"
    by (simp add: updateStatusPhase_obj(5) ex_fields)
  have run: "reconcileHelm ?r (startPass exAd)
      = ((emptyResult, Some (StatusError ReasonOther ''the object has been modified'')), snd ?u)"
    using acc vals absent
    by (subst reconcileHelm_absent[of ?r "startPass exAd" exMerged])
       (simp_all add: startPass_simps ex_names Let_def case_prod_beta fu)
  show ?thesis
    using acc vals absent
    by (simp add: run updateStatusPhase_obj logCall_simps startPass_simps phase_distinct)
qed

section \<open>Uninstall of an absent release (C6)\<close>

text \<open>
  C6, as amended. \<open>Uninstall\<close> returns nil exactly when the action configuration
  initialises and Helm's uninstall action returns nil: it hands every error of the action
  on, wrapped as \<open>failed to uninstall release\<close>, and has no case for a release that is not
  there. The absent release is dealt with
  one level up: when \<open>ReleaseExists\<close> answers False, a pass of \<open>reconcileDelete\<close> over a
  record with the finalizer (the status write gone through) makes no \<open>Uninstall\<close> call,
  removes the finalizer and returns what the update of the object returns, so that a
  deletion pass repeated after the release is gone succeeds.
\<close>

theorem C6_uninstall_passes_errors:
  "(Uninstall (HelmClient r) name namespace = None)
      = (actionConfigInit (HelmClient r) namespace = None \<and> uninstallRun (HelmClient r) namespace name = None)
   \<and> (\<forall>err. actionConfigInit (HelmClient r) namespace = None
              \<and> uninstallRun (HelmClient r) namespace name = Some err
         \<longrightarrow> Uninstall (HelmClient r) name namespace
               = Some (Wrap ''failed to uninstall release: '' err))
   \<and> (ContainsFinalizer ad finalizerName
        \<and> fst (updateStatusPhase r PhaseUninstalling ''Uninstalling Helm release'' (startPass ad)) = None
        \<and> ReleaseExists (HelmClient r) (resolveReleaseName ad) (Namespace (ObjectMeta ad)) = Inr False
        \<longrightarrow> filter isUninstall (calls (snd (reconcileDelete r (startPass ad)))) = []
            \<and> \<not> ContainsFinalizer (obj (snd (reconcileDelete r (startPass ad)))) finalizerName
            \<and> fst (reconcileDelete r (startPass ad))
                = (emptyResult, apiUpdate r (obj (snd (reconcileDelete r (startPass ad))))))"
proof -
  have un: "(Uninstall (HelmClient r) name namespace = None)
      = (actionConfigInit (HelmClient r) namespace = None \<and> uninstallRun (HelmClient r) namespace name = None)"
    by (simp add: Uninstall_def getActionConfig_def split: option.splits)
  have wr: "Uninstall (HelmClient r) name namespace = Some (Wrap ''failed to uninstall release: '' err)"
    if "actionConfigInit (HelmClient r) namespace = None"
       "uninstallRun (HelmClient r) namespace name = Some err" for err
    using that by (simp add: Uninstall_def getActionConfig_def)
  let ?s = "startPass ad"
  let ?u = "updateStatusPhase r PhaseUninstalling ''Uninstalling Helm release'' ?s"
  let ?rn = "resolveReleaseName ad"
  let ?ns = "Namespace (ObjectMeta ad)"
  let ?gone = "RemoveFinalizer (obj (snd ?u)) finalizerName"
  have del: "filter isUninstall (calls (snd (reconcileDelete r ?s))) = []
            \<and> \<not> ContainsFinalizer (obj (snd (reconcileDelete r ?s))) finalizerName
            \<and> fst (reconcileDelete r ?s) = (emptyResult, apiUpdate r (obj (snd (reconcileDelete r ?s))))"
    if fin: "ContainsFinalizer ad finalizerName" and w: "fst ?u = None"
      and ab: "ReleaseExists (HelmClient r) ?rn ?ns = Inr False"
  proof -
    have "reconcileDelete r ?s =
          ((emptyResult, apiUpdate r ?gone),
           logCall (CallUpdate ?gone) ((logCall (CallReleaseExists ?rn ?ns) (snd ?u))\<lparr>obj := ?gone\<rparr>))"
      using fin w ab
      by (simp add: reconcileDelete_def startPass_simps Let_def case_prod_beta logCall_def
            split: option.splits)
    then show ?thesis
      by (simp add: logCall_def updateStatusPhase_obj(4) startPass_simps ContainsFinalizer_Remove)
  qed
  show ?thesis using un wr del by blast
qed

text \<open>
  The amended claim in the small world: nothing installed, then installed, then installed
  with an uninstall action that fails.
\<close>

theorem C6_uninstall_passes_errors_witness:
  "ContainsFinalizer exDeleting finalizerName
   \<and> ReleaseExists exHelm ''pg'' ''ns1'' = Inr False
   \<and> filter isUninstall (calls (snd (reconcileDelete (exReconciler exHelm exDeleting) (startPass exDeleting)))) = []
   \<and> \<not> ContainsFinalizer (obj (snd (reconcileDelete (exReconciler exHelm exDeleting) (startPass exDeleting))))
         finalizerName
   \<and> fst (reconcileDelete (exReconciler exHelm exDeleting) (startPass exDeleting)) = (emptyResult, None)
   \<and> Uninstall exHelmInstalled ''pg'' ''ns1'' = None
   \<and> Uninstall exHelmStuck ''pg'' ''ns1''
        = Some (Wrap ''failed to uninstall release: '' (Errorf ''timed out''))"
proof -
  have fin: "ContainsFinalizer exDeleting finalizerName"
    by (simp add: ContainsFinalizer_def ex_world_defs)
  have nm: "resolveReleaseName exDeleting = ''pg''" "Namespace (ObjectMeta exDeleting) = ''ns1''"
    by (simp_all add: resolveReleaseName_def ex_world_defs)
  have w: "fst (updateStatusPhase (exReconciler exHelm exDeleting) PhaseUninstalling
                  ''Uninstalling Helm release'' (startPass exDeleting)) = None"
    by (simp add: updateStatusPhase_obj(5) ex_fields)
  have un: "Uninstall exHelmInstalled ''pg'' ''ns1'' = None"
    using C6_uninstall_passes_errors[of "exReconciler exHelmInstalled exDeleting" "''pg''" "''ns1''" exDeleting]
    by (simp add: ex_fields exHelmInstalled_def exHelm_def)
  have stuck: "Uninstall exHelmStuck ''pg'' ''ns1''
        = Some (Wrap ''failed to uninstall release: '' (Errorf ''timed out''))"
    using C6_uninstall_passes_errors[of "exReconciler exHelmStuck exDeleting" "''pg''" "''ns1''" exDeleting]
    by (simp add: ex_fields exHelmStuck_def exHelmInstalled_def exHelm_def)
  show ?thesis
    using C6_uninstall_passes_errors[of "exReconciler exHelm exDeleting" "''pg''" "''ns1''" exDeleting] fin w un stuck
    by (simp add: ex_fields nm ex_helm)
qed

text \<open>
  C6 as stated fails in the Helm where nothing is installed: \<open>GetRelease\<close> and
  \<open>ReleaseExists\<close> report the release absent, and \<open>Uninstall\<close> returns the error of the
  uninstall action, wrapped.
\<close>

theorem C6_uninstall_absent_counterexample:
  "GetRelease exHelm ''pg'' ''ns1'' = Inr None
   \<and> ReleaseExists exHelm ''pg'' ''ns1'' = Inr False
   \<and> Uninstall exHelm ''pg'' ''ns1''
        = Some (Wrap ''failed to uninstall release: ''
                  (Errorf ''uninstall: Release not loaded: pg: release: not found''))"
  by (simp add: ex_helm)

section \<open>Mirror queries (C7)\<close>

text \<open>
  C7. \<open>ListCharts\<close> lists the names of the mirror's entries that are directories, do not
  start with a dot and hold a \<open>Chart.yaml\<close>; \<open>ChartExists\<close> only asks whether
  \<open>Chart.yaml\<close> can be found under the path joined from the mirror's path and the name.
  The two agree on a plain name that does not start with a dot
  (\<open>ChartExists_iff_listed_plain\<close>), and on no more: in the small world \<open>ChartExists\<close>
  accepts the hidden directory \<open>.staging\<close>, the name \<open>postgresql/\<close>, which the join cleans
  to \<open>postgresql\<close>, and \<open>../home/dev\<close>, a directory outside the mirror, while \<open>ListCharts\<close>
  returns \<open>postgresql\<close> alone.
\<close>

theorem C7_exists_not_listed:
  "ChartExists exSyncer ''.staging''
   \<and> ChartExists exSyncer ''postgresql/''
   \<and> ChartExists exSyncer ''../home/dev''
   \<and> ListCharts exSyncer = Inr [''postgresql'']"
  by (simp add: ChartExists_def ListCharts_def GetChartPath_def filepath_Join_def components_def
        osStat_def osReadDir_def exSyncer_def exTree_def)

section \<open>Redelivery (C8)\<close>

text \<open>
  C8, as amended. The record name of a request is its release name when one is given and
  otherwise the application name, a dash and the first eight bytes of the request id: two
  requests with the same request id, application name and release name resolve to the
  same name, and the request id alone does not decide it. If a delivery of a deployment
  request returned nil, there is a record under the resolved name in the payload's
  namespace, every other record is untouched, and if there was none under that name
  before, the record is the one the handler built. A second delivery that resolves to the
  same name in the same namespace, to a handler whose API server holds the same objects,
  leaves the objects as they are; it returns nil when the create request fails for no
  other reason than the name being taken, and otherwise the error of the create request
  wrapped as \<open>failed to create AppDeployment\<close>.
\<close>

theorem C8_redelivery_idempotent:
  assumes first: "HandleDeploymentRequest h payload = (None, h1)"
  shows "(RequestID payload2 = RequestID payload \<and> p_AppName payload2 = p_AppName payload
            \<and> p_ReleaseName payload2 = p_ReleaseName payload
          \<longrightarrow> resolveName payload2 = resolveName payload)
    \<and> (\<exists>name. resolveName payload = Inr name
          \<and> (p_Namespace payload, name) \<in> dom (objects h1)
          \<and> (\<forall>k. k \<noteq> (p_Namespace payload, name) \<longrightarrow> objects h1 k = objects h k)
          \<and> (objects h (p_Namespace payload, name) = None \<longrightarrow>
                objects h1 (p_Namespace payload, name)
                  = Some (newAppDeployment payload name
                            (case p_Values payload of None \<Rightarrow> None
                             | Some vs \<Rightarrow> Some (marshal (jsonQuote (h_lib h)) (JObj vs)))))
          \<and> (resolveName payload2 = Inr name \<and> p_Namespace payload2 = p_Namespace payload
                \<and> objects h2 = objects h1
              \<longrightarrow> HandleDeploymentRequest h2 payload2 =
                    (case createFault h2
                            (newAppDeployment payload2 name
                               (case p_Values payload2 of None \<Rightarrow> None
                                | Some vs \<Rightarrow> Some (marshal (jsonQuote (h_lib h2)) (JObj vs)))) of
                       None \<Rightarrow> (None, h2)
                     | Some msg \<Rightarrow>
                         (Some (Wrap ''failed to create AppDeployment: ''
                                  (StatusError ReasonOther msg)), h2))))"
proof -
  have same: "resolveName payload2 = resolveName payload"
    if "RequestID payload2 = RequestID payload" "p_AppName payload2 = p_AppName payload"
       "p_ReleaseName payload2 = p_ReleaseName payload"
    using that by (simp add: resolveName_def split: sum.splits)
  obtain name where n: "resolveName payload = Inr name"
    using first by (cases "resolveName payload") (simp_all add: HandleDeploymentRequest_def)
  let ?k = "(p_Namespace payload, name)"
  let ?a = "newAppDeployment payload name
                (case p_Values payload of None \<Rightarrow> None
                 | Some vs \<Rightarrow> Some (marshal (jsonQuote (h_lib h)) (JObj vs)))"
  let ?a2 = "newAppDeployment payload2 name
                (case p_Values payload2 of None \<Rightarrow> None
                 | Some vs \<Rightarrow> Some (marshal (jsonQuote (h_lib h2)) (JObj vs)))"
  have h1: "(objects h ?k \<noteq> None \<and> h1 = h)
            \<or> (objects h ?k = None \<and> h1 = h\<lparr>objects := (objects h)(?k \<mapsto> ?a)\<rparr>)"
    using first unfolding handle_resolved[OF n] Let_def
    by (auto split: option.splits if_splits)
  then have in1: "objects h1 ?k \<noteq> None" by auto
  have second: "HandleDeploymentRequest h2 payload2 =
        (case createFault h2 ?a2 of
           None \<Rightarrow> (None, h2)
         | Some msg \<Rightarrow>
             (Some (Wrap ''failed to create AppDeployment: '' (StatusError ReasonOther msg)), h2))"
    if n2: "resolveName payload2 = Inr name" and ns: "p_Namespace payload2 = p_Namespace payload"
      and store: "objects h2 = objects h1"
  proof -
    have "objects h2 (p_Namespace payload2, name) \<noteq> None" using in1 store ns by simp
    then show ?thesis
      unfolding handle_resolved[OF n2] Let_def by (auto split: option.splits)
  qed
  have others: "\<forall>k. k \<noteq> ?k \<longrightarrow> objects h1 k = objects h k"
    using h1 by auto
  have fresh: "objects h ?k = None \<longrightarrow> objects h1 ?k = Some ?a"
    using h1 by auto
  have dom1: "?k \<in> dom (objects h1)" using in1 by (simp add: dom_def)
  have second': "resolveName payload2 = Inr name \<and> p_Namespace payload2 = p_Namespace payload
                \<and> objects h2 = objects h1
              \<longrightarrow> HandleDeploymentRequest h2 payload2 =
                    (case createFault h2 ?a2 of
                       None \<Rightarrow> (None, h2)
                     | Some msg \<Rightarrow>
                         (Some (Wrap ''failed to create AppDeployment: ''
                                  (StatusError ReasonOther msg)), h2))"
    by (intro impI, elim conjE, rule second)
  show ?thesis
  proof (intro conjI)
    show "RequestID payload2 = RequestID payload \<and> p_AppName payload2 = p_AppName payload
            \<and> p_ReleaseName payload2 = p_ReleaseName payload
          \<longrightarrow> resolveName payload2 = resolveName payload"
      by (intro impI, elim conjE, rule same)
  next
    show "\<exists>name. resolveName payload = Inr name
          \<and> (p_Namespace payload, name) \<in> dom (objects h1)
          \<and> (\<forall>k. k \<noteq> (p_Namespace payload, name) \<longrightarrow> objects h1 k = objects h k)
          \<and> (objects h (p_Namespace payload, name) = None \<longrightarrow>
                objects h1 (p_Namespace payload, name)
                  = Some (newAppDeployment payload name
                            (case p_Values payload of None \<Rightarrow> None
                             | Some vs \<Rightarrow> Some (marshal (jsonQuote (h_lib h)) (JObj vs)))))
          \<and> (resolveName payload2 = Inr name \<and> p_Namespace payload2 = p_Namespace payload
                \<and> objects h2 = objects h1
              \<longrightarrow> HandleDeploymentRequest h2 payload2 =
                    (case createFault h2
                            (newAppDeployment payload2 name
                               (case p_Values payload2 of None \<Rightarrow> None
                                | Some vs \<Rightarrow> Some (marshal (jsonQuote (h_lib h2)) (JObj vs)))) of
                       None \<Rightarrow> (None, h2)
                     | Some msg \<Rightarrow>
                         (Some (Wrap ''failed to create AppDeployment: ''
                                  (StatusError ReasonOther msg)), h2)))"
      by (rule exI[of _ name]) (intro conjI n dom1 others fresh second')
  qed
qed

text \<open>
  Two deliveries of the same request to the empty API server: the second returns nil and
  changes nothing; with the API server out of reach at the second delivery, it returns the
  error of the create request.
\<close>

theorem C8_redelivery_idempotent_witness:
  "HandleDeploymentRequest exHandler exRequest = (None, exHandlerAfter)
   \<and> resolveName exRequest = Inr ''postgresql-3f2b8c1e''
   \<and> dom (objects exHandlerAfter) = {(''ns1'', ''postgresql-3f2b8c1e'')}
   \<and> HandleDeploymentRequest exHandlerAfter exRequest = (None, exHandlerAfter)
   \<and> HandleDeploymentRequest exHandlerDown exRequest
       = (Some (Wrap ''failed to create AppDeployment: ''
                  (StatusError ReasonOther ''connection refused'')), exHandlerDown)"
proof -
  have n: "resolveName exRequest = Inr ''postgresql-3f2b8c1e''"
    by (simp add: resolveName_def slicePrefix_def exRequest_def)
  have first: "HandleDeploymentRequest exHandler exRequest = (None, exHandlerAfter)"
    unfolding handle_resolved[OF n] by (simp add: exHandlerAfter_def exHandler_def exRequest_def)
  have d: "dom (objects exHandlerAfter) = {(''ns1'', ''postgresql-3f2b8c1e'')}"
    by (simp add: exHandlerAfter_def)
  have up: "createFault exHandlerAfter = (\<lambda>a. None)"
    by (simp add: exHandlerAfter_def exHandler_def)
  have down: "createFault exHandlerDown = (\<lambda>a. Some ''connection refused'')"
       "objects exHandlerDown = objects exHandlerAfter"
    by (simp_all add: exHandlerDown_def)
  have ns: "p_Namespace exRequest = ''ns1''" by (simp add: exRequest_def)
  show ?thesis
    using C8_redelivery_idempotent[OF first, of exRequest exHandlerAfter]
          C8_redelivery_idempotent[OF first, of exRequest exHandlerDown]
    by (simp add: n first d up down ns)
qed

text \<open>
  C8 as stated fails twice. Two requests with the same request id and different
  application names resolve to different names, and both deliveries return nil: two
  records for one request id. And when the API server is out of reach at the second
  delivery of the very same request, that delivery returns an error, not nil.
\<close>

theorem C8_same_request_id_two_records_counterexample:
  "RequestID exRequestRedis = RequestID exRequest
   \<and> p_Namespace exRequestRedis = p_Namespace exRequest
   \<and> resolveName exRequest = Inr ''postgresql-3f2b8c1e''
   \<and> resolveName exRequestRedis = Inr ''redis-3f2b8c1e''
   \<and> HandleDeploymentRequest exHandler exRequest = (None, exHandlerAfter)
   \<and> fst (HandleDeploymentRequest exHandlerAfter exRequestRedis) = None
   \<and> dom (objects (snd (HandleDeploymentRequest exHandlerAfter exRequestRedis)))
       = {(''ns1'', ''postgresql-3f2b8c1e''), (''ns1'', ''redis-3f2b8c1e'')}
   \<and> objects exHandlerDown = objects exHandlerAfter
   \<and> HandleDeploymentRequest exHandlerDown exRequest
       = (Some (Wrap ''failed to create AppDeployment: ''
                  (StatusError ReasonOther ''connection refused'')), exHandlerDown)"
proof -
  have n: "resolveName exRequest = Inr ''postgresql-3f2b8c1e''"
    by (simp add: resolveName_def slicePrefix_def exRequest_def)
  have n2: "resolveName exRequestRedis = Inr ''redis-3f2b8c1e''"
    by (simp add: resolveName_def slicePrefix_def exRequestRedis_def exRequest_def)
  have first: "HandleDeploymentRequest exHandler exRequest = (None, exHandlerAfter)"
    unfolding handle_resolved[OF n] by (simp add: exHandlerAfter_def exHandler_def exRequest_def)
  have second: "HandleDeploymentRequest exHandlerAfter exRequestRedis
      = (None, exHandlerAfter\<lparr>objects := (objects exHandlerAfter)((''ns1'', ''redis-3f2b8c1e'')
                  \<mapsto> newAppDeployment exRequestRedis ''redis-3f2b8c1e'' None)\<rparr>)"
    unfolding handle_resolved[OF n2]
    by (simp add: exHandlerAfter_def exHandler_def exRequestRedis_def exRequest_def)
  have d: "dom (objects exHandlerAfter) = {(''ns1'', ''postgresql-3f2b8c1e'')}"
    by (simp add: exHandlerAfter_def)
  have down: "HandleDeploymentRequest exHandlerDown exRequest
       = (Some (Wrap ''failed to create AppDeployment: ''
                  (StatusError ReasonOther ''connection refused'')), exHandlerDown)"
    unfolding handle_resolved[OF n] by (simp add: exHandlerDown_def)
  have ids: "RequestID exRequestRedis = RequestID exRequest"
       "p_Namespace exRequestRedis = p_Namespace exRequest"
    by (simp_all add: exRequestRedis_def)
  have same: "objects exHandlerDown = objects exHandlerAfter"
    by (simp add: exHandlerDown_def)
  have two: "dom (objects (snd (HandleDeploymentRequest exHandlerAfter exRequestRedis)))
       = {(''ns1'', ''postgresql-3f2b8c1e''), (''ns1'', ''redis-3f2b8c1e'')}"
    by (simp add: second d insert_commute)
  have nil: "fst (HandleDeploymentRequest exHandlerAfter exRequestRedis) = None"
    by (simp add: second)
  show ?thesis
    by (intro conjI ids n n2 first nil two same down)
qed

section \<open>Values hash (C9)\<close>

text \<open>
  C9. Two values maps with distinct keys at every level that are equal as key-value
  trees, whatever the order their keys are visited in, have the same \<open>hashValues\<close>:
  \<open>json.Marshal\<close> writes the keys of every map in sorted order, so the bytes hashed are the
  same. This holds for any string quoting and any hash function in place of SHA-256.
\<close>

theorem C9_hash_deterministic:
  assumes "wf_values a" "wf_values b" "treeOf (JObj a) = treeOf (JObj b)"
  shows "hashValues L a = hashValues L b"
  using marshal_treeOf[of "JObj a" "JObj b" "jsonQuote L"] assms
  by (simp add: hashValues_def wf_values_def Let_def del: marshal.simps treeOf.simps wf_json.simps)

text \<open>The claim on the two orders of the same values map.\<close>

theorem C9_hash_deterministic_witness:
  "wf_values exValuesA \<and> wf_values exValuesB \<and> exValuesA \<noteq> exValuesB
   \<and> treeOf (JObj exValuesA) = treeOf (JObj exValuesB)
   \<and> hashValues exLib exValuesA = hashValues exLib exValuesB"
proof -
  have wa: "wf_values exValuesA" by (simp add: wf_values_def exValuesA_def)
  have wb: "wf_values exValuesB" by (simp add: wf_values_def exValuesB_def)
  have ne: "exValuesA \<noteq> exValuesB" by (simp add: exValuesA_def exValuesB_def)
  have t: "treeOf (JObj exValuesA) = treeOf (JObj exValuesB)"
    by (simp add: exValuesA_def exValuesB_def fun_eq_iff)
  show ?thesis
    using C9_hash_deterministic[OF wa wb t, of exLib] wa wb ne t by simp
qed

section \<open>Generated names (C10)\<close>

text \<open>
  C10. When the payload has no release name and its request id is shorter than 8 bytes,
  \<open>HandleDeploymentRequest\<close> panics on \<open>RequestID[:8]\<close>: nothing is created and what comes
  out is the panic, not a returned error. In every other case the handler does not
  panic: it returns nil or an error.
\<close>

theorem C10_short_request_id_panics:
  "(p_ReleaseName payload = [] \<and> length (RequestID payload) < 8 \<longrightarrow>
      HandleDeploymentRequest h payload = (Some (Panic ''slice bounds out of range''), h))
   \<and> (\<not> (p_ReleaseName payload = [] \<and> length (RequestID payload) < 8) \<longrightarrow>
      (case fst (HandleDeploymentRequest h payload) of Some e \<Rightarrow> \<not> isPanic e | None \<Rightarrow> True))"
proof (cases "p_ReleaseName payload = [] \<and> length (RequestID payload) < 8")
  case True
  then show ?thesis
    by (simp add: HandleDeploymentRequest_def resolveName_def slicePrefix_def)
next
  case False
  then obtain name where n: "resolveName payload = Inr name"
    by (cases "p_ReleaseName payload = []") (simp_all add: resolveName_def slicePrefix_def)
  show ?thesis using False
    unfolding handle_resolved[OF n] Let_def by (simp split: option.splits)
qed

text \<open>The claim on a request with the id \<open>req-42\<close>, and on one with a full id.\<close>

theorem C10_short_request_id_panics_witness:
  "p_ReleaseName exShortRequest = [] \<and> length (RequestID exShortRequest) < 8
   \<and> HandleDeploymentRequest exHandler exShortRequest
        = (Some (Panic ''slice bounds out of range''), exHandler)
   \<and> \<not> (p_ReleaseName exRequest = [] \<and> length (RequestID exRequest) < 8)
   \<and> fst (HandleDeploymentRequest exHandler exRequest) = None"
proof -
  have a: "p_ReleaseName exShortRequest = [] \<and> length (RequestID exShortRequest) < 8"
    by (simp add: exShortRequest_def exRequest_def)
  have b: "\<not> (p_ReleaseName exRequest = [] \<and> length (RequestID exRequest) < 8)"
    by (simp add: exRequest_def)
  have c: "fst (HandleDeploymentRequest exHandler exRequest) = None"
    by (simp add: HandleDeploymentRequest_def resolveName_def slicePrefix_def exRequest_def
          ensureNamespace_def clientCreate_def exHandler_def Let_def)
  show ?thesis
    using C10_short_request_id_panics[of exShortRequest exHandler] a b c by simp
qed

end
